theory Spec2Isabelle
  imports Complex_Main "HOL-Library.Word" "HOL-Library.Multiset"
begin

section \<open>SenseEdge training pipeline (ml/train_senseedge.py)\<close>

text \<open>
  A shallow embedding of the training and quantisation script. Conventions:
  \<^item> a numpy array is a record of its shape and its elements in row-major order;
  \<^item> in the quantiser a float64 value is a finite real, an infinity or NaN, and every
    arithmetic result is rounded to the nearest float64 or overflows to an infinity;
    elsewhere (training, feature extraction) float64 arithmetic is taken as real arithmetic;
    int8 and int64 values are machine words;
  \<^item> an exception is the \<open>Inl\<close> of a sum; \<open>sys.exit\<close> is kept apart from the exceptions;
  \<^item> numpy's random generators are parameters: a record of the operations the script
    calls, over an abstract generator state.
\<close>

subsection \<open>Exceptions and exits\<close>

datatype exn = ValueError | IndexError | ZeroDivisionError | AssertionError | FloatingPointError

datatype abort = SystemExit int | Raised exn

definition bind_exn :: "exn + 'a \<Rightarrow> ('a \<Rightarrow> exn + 'b) \<Rightarrow> exn + 'b" where
  "bind_exn m f = (case m of Inl e \<Rightarrow> Inl e | Inr x \<Rightarrow> f x)"

definition bind_abort :: "abort + 'a \<Rightarrow> ('a \<Rightarrow> abort + 'b) \<Rightarrow> abort + 'b" where
  "bind_abort m f = (case m of Inl e \<Rightarrow> Inl e | Inr x \<Rightarrow> f x)"

definition lift_exn :: "exn + 'a \<Rightarrow> abort + 'a" where
  "lift_exn m = (case m of Inl e \<Rightarrow> Inl (Raised e) | Inr x \<Rightarrow> Inr x)"

subsection \<open>Arrays\<close>

record 'a ndarray =
  shape :: "nat list"
  data :: "'a list"

type_synonym int8 = "8 word"
type_synonym int64 = "64 word"

definition wf_ndarray :: "'a ndarray \<Rightarrow> bool" where
  "wf_ndarray a \<longleftrightarrow> length (data a) = prod_list (shape a)"

definition flatten :: "'a ndarray \<Rightarrow> 'a list" where
  "flatten a = data a"

definition np_size :: "'a ndarray \<Rightarrow> nat" where
  "np_size a = length (data a)"

text \<open>\<open>np.round\<close> rounds to the nearest integer, a half to the even neighbour.\<close>

definition np_round :: "real \<Rightarrow> int" where
  "np_round x =
     (let f = \<lfloor>x\<rfloor>; d = x - of_int f
      in if d < 1 / 2 then f else if 1 / 2 < d then f + 1
         else if even f then f else f + 1)"

text \<open>\<open>np.clip(a, lo, hi)\<close> is \<open>minimum(maximum(a, lo), hi)\<close>.\<close>

definition np_clip :: "'a::linorder \<Rightarrow> 'a \<Rightarrow> 'a \<Rightarrow> 'a" where
  "np_clip x lo hi = min (max x lo) hi"

subsection \<open>float64 values\<close>

text \<open>
  A float64 is a finite number, an infinity or NaN (the two zeros are one value).
  An arithmetic result is the exact real result rounded to the nearest float64, a tie to
  the even significand: the spacing of the float64 numbers around \<open>x\<close> is \<open>2\<^sup>e\<^sup>-\<^sup>5\<^sup>2\<close> for the
  exponent \<open>e\<close> of \<open>x\<close>, or \<open>2\<^sup>-\<^sup>1\<^sup>0\<^sup>7\<^sup>4\<close> below \<open>2\<^sup>-\<^sup>1\<^sup>0\<^sup>2\<^sup>2\<close>. From \<open>2\<^sup>1\<^sup>0\<^sup>2\<^sup>4 - 2\<^sup>9\<^sup>7\<^sup>0\<close> on, half way between
  the greatest float64 and \<open>2\<^sup>1\<^sup>0\<^sup>2\<^sup>4\<close>, the result overflows to an infinity.
\<close>

datatype f64 = Fin real | PInf | NInf | NaN

definition f64_ulp :: "real \<Rightarrow> real" where
  "f64_ulp x = 2 powr (real_of_int (max \<lfloor>log 2 \<bar>x\<bar>\<rfloor> (- 1022)) - 52)"

definition f64_nearest :: "real \<Rightarrow> real" where
  "f64_nearest x = real_of_int (np_round (x / f64_ulp x)) * f64_ulp x"

definition f64_of_real :: "real \<Rightarrow> f64" where
  "f64_of_real x =
     (if 2 ^ 1024 - 2 ^ 970 \<le> \<bar>x\<bar> then (if 0 < x then PInf else NInf)
      else Fin (f64_nearest x))"

fun f64_abs :: "f64 \<Rightarrow> f64" where
  "f64_abs (Fin r) = Fin \<bar>r\<bar>"
| "f64_abs PInf = PInf"
| "f64_abs NInf = PInf"
| "f64_abs NaN = NaN"

text \<open>The maximum of two values as \<open>np.max\<close> takes it: NaN wins over every value.\<close>

fun f64_max :: "f64 \<Rightarrow> f64 \<Rightarrow> f64" where
  "f64_max NaN b = NaN"
| "f64_max a NaN = NaN"
| "f64_max PInf b = PInf"
| "f64_max a PInf = PInf"
| "f64_max NInf b = b"
| "f64_max a NInf = a"
| "f64_max (Fin a) (Fin b) = Fin (max a b)"

fun f64_mul :: "f64 \<Rightarrow> f64 \<Rightarrow> f64" where
  "f64_mul NaN b = NaN"
| "f64_mul a NaN = NaN"
| "f64_mul (Fin a) (Fin b) = f64_of_real (a * b)"
| "f64_mul (Fin a) PInf = (if a = 0 then NaN else if 0 < a then PInf else NInf)"
| "f64_mul (Fin a) NInf = (if a = 0 then NaN else if 0 < a then NInf else PInf)"
| "f64_mul PInf (Fin b) = (if b = 0 then NaN else if 0 < b then PInf else NInf)"
| "f64_mul NInf (Fin b) = (if b = 0 then NaN else if 0 < b then NInf else PInf)"
| "f64_mul PInf PInf = PInf"
| "f64_mul PInf NInf = NInf"
| "f64_mul NInf PInf = NInf"
| "f64_mul NInf NInf = PInf"

text \<open>
  Division; a finite number divided by zero is an infinity with the sign of the dividend
  (the script divides only after it has compared the divisor with zero).
\<close>

fun f64_div :: "f64 \<Rightarrow> f64 \<Rightarrow> f64" where
  "f64_div NaN b = NaN"
| "f64_div a NaN = NaN"
| "f64_div (Fin a) (Fin b) =
     (if b = 0 then (if a = 0 then NaN else if 0 < a then PInf else NInf)
      else f64_of_real (a / b))"
| "f64_div (Fin a) PInf = Fin 0"
| "f64_div (Fin a) NInf = Fin 0"
| "f64_div PInf (Fin b) = (if 0 \<le> b then PInf else NInf)"
| "f64_div NInf (Fin b) = (if 0 \<le> b then NInf else PInf)"
| "f64_div PInf PInf = NaN"
| "f64_div PInf NInf = NaN"
| "f64_div NInf PInf = NaN"
| "f64_div NInf NInf = NaN"

text \<open>\<open>np.round\<close> of a float64: an infinity and NaN stay as they are.\<close>

fun f64_round :: "f64 \<Rightarrow> f64" where
  "f64_round (Fin r) = Fin (real_of_int (np_round r))"
| "f64_round x = x"

text \<open>
  \<open>astype(np.int64)\<close>: a finite value in range is truncated towards zero. An infinity, NaN
  or a value out of range has no defined conversion; on x86-64, where the conversion
  instruction then delivers \<open>-2\<^sup>6\<^sup>3\<close>, numpy stores that, and the model follows it.
\<close>

fun f64_to_int64 :: "f64 \<Rightarrow> int64" where
  "f64_to_int64 (Fin r) =
     (if - (2 ^ 63) \<le> r \<and> r < 2 ^ 63 then word_of_int (if 0 \<le> r then \<lfloor>r\<rfloor> else \<lceil>r\<rceil>)
      else word_of_int (- (2 ^ 63)))"
| "f64_to_int64 x = word_of_int (- (2 ^ 63))"

text \<open>\<open>np.max\<close> of an array: a zero-size array has no maximum and raises ValueError.\<close>

definition np_max :: "f64 list \<Rightarrow> exn + f64" where
  "np_max xs = (case xs of [] \<Rightarrow> Inl ValueError | x # ys \<Rightarrow> Inr (fold f64_max ys x))"

subsection \<open>INT8 quantisation: \<open>quantize_int8\<close>\<close>

text \<open>
  One element of \<open>np.clip(np.round(weights * scale).astype(np.int64), -128, 127).astype(np.int8)\<close>:
  the float64 product is rounded to an integer, stored in 64 bits, clipped as a signed
  value and stored in 8 bits.
\<close>

definition quantize_elem :: "f64 \<Rightarrow> f64 \<Rightarrow> int8" where
  "quantize_elem scale w =
     (let q = f64_to_int64 (f64_round (f64_mul w scale))
      in word_of_int (np_clip (sint q) (- 128) 127))"

definition quantize_int8 :: "f64 ndarray \<Rightarrow> exn + (int8 ndarray \<times> f64)" where
  "quantize_int8 weights =
     bind_exn (np_max (map f64_abs (data weights))) (\<lambda>w_max.
       if w_max = Fin 0
       then Inr (\<lparr>shape = shape weights, data = map (\<lambda>_. 0) (data weights)\<rparr>, Fin 1)
       else let scale = f64_div (Fin 127) w_max
            in Inr (\<lparr>shape = shape weights,
                     data = map (quantize_elem scale) (data weights)\<rparr>, scale))"

subsection \<open>Serialisation: \<open>save_weights\<close>\<close>

record artifact =
  layer1_weights :: "int8 ndarray"
  layer1_biases :: "int8 ndarray"
  layer2_weights :: "int8 ndarray"
  layer2_biases :: "int8 ndarray"
  all_weights :: "int8 list"
  scales :: "real list"

text \<open>
  The flat array is the concatenation of the four flattened tensors. After the archive is
  written the script prints the minimum and maximum of each tensor, which raises
  ValueError on a zero-size tensor.
\<close>

definition save_weights ::
  "int8 ndarray \<Rightarrow> int8 ndarray \<Rightarrow> int8 ndarray \<Rightarrow> int8 ndarray \<Rightarrow> real list \<Rightarrow> exn + artifact" where
  "save_weights W1_q b1_q W2_q b2_q scales_in =
     (let all_w = flatten W1_q @ flatten b1_q @ flatten W2_q @ flatten b2_q
      in if length all_w \<noteq> 212 then Inl AssertionError
         else if np_size W1_q = 0 \<or> np_size b1_q = 0 \<or> np_size W2_q = 0 \<or> np_size b2_q = 0
         then Inl ValueError
         else Inr \<lparr>layer1_weights = W1_q, layer1_biases = b1_q,
                   layer2_weights = W2_q, layer2_biases = b2_q,
                   all_weights = all_w, scales = scales_in\<rparr>)"

subsection \<open>Windowing of a real signal (the inner loop of \<open>load_cwru_data\<close>)\<close>

definition window_size :: nat where "window_size = 1024"
definition hop :: nat where "hop = 512"

text \<open>\<open>(len(signal) - window_size) // hop\<close>: Python's floor division on integers.\<close>

definition n_windows :: "'a list \<Rightarrow> int" where
  "n_windows signal = (int (length signal) - int window_size) div int hop"

text \<open>\<open>signal[i * hop : i * hop + window_size]\<close> for \<open>i\<close> in \<open>range(n_windows)\<close>.\<close>

definition segments :: "'a list \<Rightarrow> 'a list list" where
  "segments signal =
     map (\<lambda>i. take window_size (drop (i * hop) signal)) [0..<nat (n_windows signal)]"

subsection \<open>Two-dimensional arrays and the numpy operators of the script\<close>

text \<open>
  The operators are modelled on the ranks the script uses them at: matrices of shape
  \<open>[r, c]\<close> and vectors of shape \<open>[n]\<close>. Operands of another rank, or of shapes that do not
  agree, are reported as ValueError (numpy's stretching of a length-one axis is not
  modelled; the script never relies on it).
\<close>

definition mk2 :: "nat \<Rightarrow> nat \<Rightarrow> (nat \<Rightarrow> nat \<Rightarrow> 'a) \<Rightarrow> 'a ndarray" where
  "mk2 r c f = \<lparr>shape = [r, c], data = concat (map (\<lambda>i. map (f i) [0..<c]) [0..<r])\<rparr>"

definition mk1 :: "nat \<Rightarrow> (nat \<Rightarrow> 'a) \<Rightarrow> 'a ndarray" where
  "mk1 n f = \<lparr>shape = [n], data = map f [0..<n]\<rparr>"

definition ncols :: "'a ndarray \<Rightarrow> nat" where
  "ncols a = (case shape a of [r, c] \<Rightarrow> c | _ \<Rightarrow> 0)"

definition at2 :: "'a ndarray \<Rightarrow> nat \<Rightarrow> nat \<Rightarrow> 'a" where
  "at2 a i j = data a ! (i * ncols a + j)"

definition at1 :: "'a ndarray \<Rightarrow> nat \<Rightarrow> 'a" where
  "at1 a i = data a ! i"

definition set2 :: "'a ndarray \<Rightarrow> nat \<Rightarrow> nat \<Rightarrow> 'a \<Rightarrow> 'a ndarray" where
  "set2 a i j v = a\<lparr>data := (data a)[i * ncols a + j := v]\<rparr>"

definition dims2 :: "'a ndarray \<Rightarrow> exn + (nat \<times> nat)" where
  "dims2 a = (case shape a of [r, c] \<Rightarrow> Inr (r, c) | _ \<Rightarrow> Inl ValueError)"

text \<open>\<open>a.T\<close>\<close>

definition np_T :: "'a ndarray \<Rightarrow> exn + 'a ndarray" where
  "np_T a = bind_exn (dims2 a) (\<lambda>(r, c). Inr (mk2 c r (\<lambda>i j. at2 a j i)))"

text \<open>\<open>a @ b\<close>\<close>

definition matmul :: "real ndarray \<Rightarrow> real ndarray \<Rightarrow> exn + real ndarray" where
  "matmul a b =
     bind_exn (dims2 a) (\<lambda>(n, k).
     bind_exn (dims2 b) (\<lambda>(k', m).
       if k \<noteq> k' then Inl ValueError
       else Inr (mk2 n m (\<lambda>i j. sum_list (map (\<lambda>l. at2 a i l * at2 b l j) [0..<k])))))"

text \<open>\<open>a + v\<close> for a matrix and a vector as long as its rows.\<close>

definition add_bias :: "real ndarray \<Rightarrow> real ndarray \<Rightarrow> exn + real ndarray" where
  "add_bias a v =
     bind_exn (dims2 a) (\<lambda>(n, m).
       if shape v = [m] then Inr (mk2 n m (\<lambda>i j. at2 a i j + at1 v j)) else Inl ValueError)"

text \<open>\<open>a * b\<close>, element by element, and \<open>s * a\<close> for a scalar.\<close>

definition mul_elem :: "real ndarray \<Rightarrow> real ndarray \<Rightarrow> exn + real ndarray" where
  "mul_elem a b =
     (if shape a = shape b then Inr \<lparr>shape = shape a, data = map2 (*) (data a) (data b)\<rparr>
      else Inl ValueError)"

definition scalar_mul :: "real \<Rightarrow> real ndarray \<Rightarrow> real ndarray" where
  "scalar_mul s a = \<lparr>shape = shape a, data = map ((*) s) (data a)\<rparr>"

text \<open>\<open>a.sum(axis=0)\<close>\<close>

definition sum_axis0 :: "real ndarray \<Rightarrow> exn + real ndarray" where
  "sum_axis0 a =
     bind_exn (dims2 a) (\<lambda>(n, m).
       Inr (mk1 m (\<lambda>j. sum_list (map (\<lambda>i. at2 a i j) [0..<n]))))"

text \<open>
  Indexing with an integer: an index in \<open>[0, n)\<close> is itself, one in \<open>[-n, 0)\<close> counts from
  the end, any other raises IndexError.
\<close>

definition norm_index :: "nat \<Rightarrow> int \<Rightarrow> exn + nat" where
  "norm_index n i =
     (if 0 \<le> i \<and> i < int n then Inr (nat i)
      else if - int n \<le> i \<and> i < 0 then Inr (nat (i + int n))
      else Inl IndexError)"

text \<open>Two index arrays are paired element by element; one of length one is repeated.\<close>

definition broadcast2 :: "'a list \<Rightarrow> 'b list \<Rightarrow> exn + ('a \<times> 'b) list" where
  "broadcast2 xs ys =
     (if length xs = length ys then Inr (zip xs ys)
      else if length xs = 1 then Inr (map (Pair (hd xs)) ys)
      else if length ys = 1 then Inr (map (\<lambda>x. (x, hd ys)) xs)
      else Inl IndexError)"

fun norm_pairs :: "nat \<Rightarrow> nat \<Rightarrow> (int \<times> int) list \<Rightarrow> exn + (nat \<times> nat) list" where
  "norm_pairs r c [] = Inr []"
| "norm_pairs r c ((i, j) # ps) =
     bind_exn (norm_index r i) (\<lambda>i'.
     bind_exn (norm_index c j) (\<lambda>j'.
     bind_exn (norm_pairs r c ps) (\<lambda>ps'. Inr ((i', j') # ps'))))"

text \<open>
  \<open>a[rows, cols] -= v\<close> on a matrix: the selected elements are read, \<open>v\<close> is subtracted and
  the results are written back, so a position selected twice is changed once.
\<close>

definition fancy_isub :: "real ndarray \<Rightarrow> int list \<Rightarrow> int list \<Rightarrow> real \<Rightarrow> exn + real ndarray" where
  "fancy_isub a rows_ix cols_ix v =
     (case dims2 a of Inl e \<Rightarrow> Inl IndexError
      | Inr (r, c) \<Rightarrow>
          bind_exn (broadcast2 rows_ix cols_ix) (\<lambda>ps.
          bind_exn (norm_pairs r c ps) (\<lambda>ix.
            Inr (fold (\<lambda>(i, j) b. set2 b i j (at2 a i j - v)) ix a))))"

text \<open>\<open>a[rows, cols]\<close> on a matrix.\<close>

definition fancy_get :: "real ndarray \<Rightarrow> int list \<Rightarrow> int list \<Rightarrow> exn + real list" where
  "fancy_get a rows_ix cols_ix =
     (case dims2 a of Inl e \<Rightarrow> Inl IndexError
      | Inr (r, c) \<Rightarrow>
          bind_exn (broadcast2 rows_ix cols_ix) (\<lambda>ps.
          bind_exn (norm_pairs r c ps) (\<lambda>ix. Inr (map (\<lambda>(i, j). at2 a i j) ix))))"

definition arange :: "nat \<Rightarrow> int list" where
  "arange n = map int [0..<n]"

text \<open>
  \<open>a /= n\<close> for an integer \<open>n\<close>. Dividing an element by zero has no real value (numpy gives
  \<open>inf\<close> or \<open>nan\<close> under a RuntimeWarning); the model reports it as FloatingPointError.
\<close>

definition idiv_scalar :: "real ndarray \<Rightarrow> nat \<Rightarrow> exn + real ndarray" where
  "idiv_scalar a n =
     (if n = 0 \<and> data a \<noteq> [] then Inl FloatingPointError
      else Inr \<lparr>shape = shape a, data = map (\<lambda>x. x / real n) (data a)\<rparr>)"

definition np_divide :: "real \<Rightarrow> real \<Rightarrow> exn + real" where
  "np_divide x y = (if y = 0 then Inl FloatingPointError else Inr (x / y))"

text \<open>\<open>np.argmax\<close> of a list: the first position of the greatest value.\<close>

fun argmax_from :: "nat \<Rightarrow> real \<Rightarrow> nat \<Rightarrow> real list \<Rightarrow> nat" where
  "argmax_from best bv i [] = best"
| "argmax_from best bv i (x # xs) =
     (if bv < x then argmax_from i x (Suc i) xs else argmax_from best bv (Suc i) xs)"

definition np_argmax :: "real list \<Rightarrow> exn + nat" where
  "np_argmax xs = (case xs of [] \<Rightarrow> Inl ValueError | x # ys \<Rightarrow> Inr (argmax_from 0 x 1 ys))"

definition row :: "'a ndarray \<Rightarrow> nat \<Rightarrow> 'a list" where
  "row a i = map (at2 a i) [0..<ncols a]"

text \<open>\<open>np.argmax(a, axis=1)\<close>\<close>

definition argmax_axis1 :: "real ndarray \<Rightarrow> exn + nat list" where
  "argmax_axis1 a =
     bind_exn (dims2 a) (\<lambda>(n, m).
       if m = 0 then Inl ValueError
       else Inr (map (\<lambda>i. argmax_from 0 (at2 a i 0) 1 (tl (row a i))) [0..<n]))"

text \<open>\<open>np.mean\<close> of a list; the mean of no values is \<open>nan\<close>, here \<open>None\<close>.\<close>

definition np_mean :: "real list \<Rightarrow> real option" where
  "np_mean xs = (if xs = [] then None else Some (sum_list xs / real (length xs)))"

subsection \<open>The network: \<open>softmax\<close>, \<open>relu\<close>, \<open>forward\<close>, \<open>backward\<close>\<close>

definition softmax :: "real ndarray \<Rightarrow> exn + real ndarray" where
  "softmax logits =
     bind_exn (dims2 logits) (\<lambda>(n, m).
       if m = 0 then Inl ValueError
       else let mx = (\<lambda>i. fold max (tl (row logits i)) (at2 logits i 0));
                e = (\<lambda>i j. exp (at2 logits i j - mx i));
                s = (\<lambda>i. sum_list (map (e i) [0..<m]))
            in Inr (mk2 n m (\<lambda>i j. e i j / s i)))"

definition relu :: "real ndarray \<Rightarrow> real ndarray" where
  "relu x = \<lparr>shape = shape x, data = map (max 0) (data x)\<rparr>"

definition relu_grad :: "real ndarray \<Rightarrow> real ndarray" where
  "relu_grad x = \<lparr>shape = shape x, data = map (\<lambda>v. if 0 < v then 1 else 0) (data x)\<rparr>"

text \<open>
  \<open>cross_entropy_loss\<close>: the mean over the batch of \<open>-log(p + 1e-12)\<close> at the true labels
  (\<open>None\<close> for the \<open>nan\<close> of an empty batch).
\<close>

definition cross_entropy_loss :: "real ndarray \<Rightarrow> int list \<Rightarrow> exn + real option" where
  "cross_entropy_loss probs labels =
     bind_exn (fancy_get probs (arange (length labels)) labels) (\<lambda>ps.
       Inr (np_mean (map (\<lambda>p. - ln (p + 1 / 10 ^ 12)) ps)))"

definition forward ::
  "real ndarray \<Rightarrow> real ndarray \<Rightarrow> real ndarray \<Rightarrow> real ndarray \<Rightarrow> real ndarray
     \<Rightarrow> exn + (real ndarray \<times> real ndarray \<times> real ndarray \<times> real ndarray)" where
  "forward X W1 b1 W2 b2 =
     bind_exn (np_T W1) (\<lambda>W1T.
     bind_exn (matmul X W1T) (\<lambda>XW.
     bind_exn (add_bias XW b1) (\<lambda>z1.
     let h1 = relu z1 in
     bind_exn (np_T W2) (\<lambda>W2T.
     bind_exn (matmul h1 W2T) (\<lambda>HW.
     bind_exn (add_bias HW b2) (\<lambda>z2.
     bind_exn (softmax z2) (\<lambda>probs.
       Inr (z1, h1, z2, probs))))))))"

definition backward ::
  "real ndarray \<Rightarrow> real ndarray \<Rightarrow> real ndarray \<Rightarrow> real ndarray \<Rightarrow> int list \<Rightarrow> real ndarray
     \<Rightarrow> exn + (real ndarray \<times> real ndarray \<times> real ndarray \<times> real ndarray)" where
  "backward X z1 h1 probs labels W2 =
     bind_exn (case shape X of [] \<Rightarrow> Inl IndexError | n # _ \<Rightarrow> Inr n) (\<lambda>n.
     bind_exn (fancy_isub probs (arange n) labels 1) (\<lambda>dz2_0.
     bind_exn (idiv_scalar dz2_0 n) (\<lambda>dz2.
     bind_exn (np_T dz2) (\<lambda>dz2T.
     bind_exn (matmul dz2T h1) (\<lambda>dW2.
     bind_exn (sum_axis0 dz2) (\<lambda>db2.
     bind_exn (matmul dz2 W2) (\<lambda>dh1.
     bind_exn (mul_elem dh1 (relu_grad z1)) (\<lambda>dz1.
     bind_exn (np_T dz1) (\<lambda>dz1T.
     bind_exn (matmul dz1T X) (\<lambda>dW1.
     bind_exn (sum_axis0 dz1) (\<lambda>db1.
       Inr (dW1, db1, dW2, db2))))))))))))"

text \<open>
  The closed form of the gradients, written from the design document: \<open>dz2\<close> is \<open>probs\<close>
  with 1 subtracted at each row's true-label column, divided by the batch size;
  \<open>dW2 = dz2\<^sup>T h1\<close>; \<open>db2\<close> the column sums of \<open>dz2\<close>; \<open>dh1 = dz2 W2\<close>; \<open>dz1\<close> is \<open>dh1\<close> times
  1 where \<open>z1 > 0\<close> and 0 elsewhere; \<open>dW1 = dz1\<^sup>T X\<close>; \<open>db1\<close> the column sums of \<open>dz1\<close>.
  Here \<open>n\<close> is the batch size, \<open>d\<close> the number of inputs, \<open>h\<close> of hidden units and \<open>k\<close> of
  classes.
\<close>

definition dz2_spec :: "nat \<Rightarrow> real ndarray \<Rightarrow> int list \<Rightarrow> nat \<Rightarrow> nat \<Rightarrow> real" where
  "dz2_spec n probs labels i j =
     (at2 probs i j - (if int j = labels ! i then 1 else 0)) / real n"

definition dh1_spec :: "nat \<Rightarrow> nat \<Rightarrow> real ndarray \<Rightarrow> int list \<Rightarrow> real ndarray \<Rightarrow> nat \<Rightarrow> nat \<Rightarrow> real" where
  "dh1_spec n k probs labels W2 i b = (\<Sum>a<k. dz2_spec n probs labels i a * at2 W2 a b)"

definition dz1_spec ::
  "nat \<Rightarrow> nat \<Rightarrow> real ndarray \<Rightarrow> real ndarray \<Rightarrow> int list \<Rightarrow> real ndarray \<Rightarrow> nat \<Rightarrow> nat \<Rightarrow> real" where
  "dz1_spec n k z1 probs labels W2 i b =
     dh1_spec n k probs labels W2 i b * (if 0 < at2 z1 i b then 1 else 0)"

definition backward_spec ::
  "nat \<Rightarrow> nat \<Rightarrow> nat \<Rightarrow> nat \<Rightarrow> real ndarray \<Rightarrow> real ndarray \<Rightarrow> real ndarray \<Rightarrow> real ndarray
     \<Rightarrow> int list \<Rightarrow> real ndarray
     \<Rightarrow> real ndarray \<times> real ndarray \<times> real ndarray \<times> real ndarray" where
  "backward_spec n d h k X z1 h1 probs labels W2 =
     (mk2 h d (\<lambda>b c. \<Sum>i<n. dz1_spec n k z1 probs labels W2 i b * at2 X i c),
      mk1 h (\<lambda>b. \<Sum>i<n. dz1_spec n k z1 probs labels W2 i b),
      mk2 k h (\<lambda>a b. \<Sum>i<n. dz2_spec n probs labels i a * at2 h1 i b),
      mk1 k (\<lambda>a. \<Sum>i<n. dz2_spec n probs labels i a))"

subsection \<open>Random generators\<close>

text \<open>
  numpy's \<open>RandomState\<close> is outside the script: the operations the script calls are the
  fields of a record over the generator's state. \<open>random_state\<close> is the constructor
  \<open>np.random.RandomState(seed)\<close>, which raises ValueError on a seed it does not accept. The
  process-wide generator behind \<open>np.random.permutation\<close> is a \<open>RandomState\<close> too, seeded
  by numpy when the process starts; its state is threaded through the functions that are
  called from \<open>main\<close>.
\<close>

record 'g np_random =
  random_state :: "int \<Rightarrow> exn + 'g"
  uniform :: "'g \<Rightarrow> real \<Rightarrow> real \<Rightarrow> nat \<Rightarrow> real list \<times> 'g"
  randn :: "'g \<Rightarrow> nat \<Rightarrow> nat \<Rightarrow> real ndarray \<times> 'g"
  permutation :: "'g \<Rightarrow> nat \<Rightarrow> nat list \<times> 'g"

text \<open>What numpy documents of the two operations the data generator relies on.\<close>

definition rng_ok :: "'g np_random \<Rightarrow> bool" where
  "rng_ok R \<longleftrightarrow>
     (\<forall>g lo hi n. lo \<le> hi \<longrightarrow>
        length (fst (uniform R g lo hi n)) = n
        \<and> (\<forall>v\<in>set (fst (uniform R g lo hi n)). lo \<le> v \<and> v \<le> hi))
     \<and> (\<forall>g n. length (fst (permutation R g n)) = n
           \<and> distinct (fst (permutation R g n))
           \<and> set (fst (permutation R g n)) = {0..<n})"

text \<open>
  A small generator of the same interface, for running the model on concrete inputs: the
  state counts the calls, a uniform sample is its lower bound, a normal sample is zero and
  a permutation is a rotation by the state. It is not numpy's generator.
\<close>

definition sample_random :: "nat np_random" where
  "sample_random =
     \<lparr>random_state = (\<lambda>seed. if 0 \<le> seed \<and> seed < 2 ^ 32 then Inr (nat seed) else Inl ValueError),
      uniform = (\<lambda>g lo hi n. (replicate n lo, Suc g)),
      randn = (\<lambda>g r c. (mk2 r c (\<lambda>i j. 0), Suc g)),
      permutation = (\<lambda>g n. (rotate g [0..<n], Suc g))\<rparr>"

type_synonym dataset = "real ndarray \<times> int list"

text \<open>\<open>X[idx]\<close> for a matrix and a list of row numbers, and \<open>y[idx]\<close> for a vector.\<close>

definition take_rows :: "'a ndarray \<Rightarrow> nat list \<Rightarrow> 'a ndarray" where
  "take_rows X idx = mk2 (length idx) (ncols X) (\<lambda>i j. at2 X (idx ! i) j)"

definition take_elems :: "'a list \<Rightarrow> nat list \<Rightarrow> 'a list" where
  "take_elems y idx = map ((!) y) idx"

subsection \<open>Synthetic data: \<open>generate_synthetic_data\<close>\<close>

text \<open>The bounds of the eight uniform draws of each class, in the order of the calls.\<close>

definition class_ranges :: "(real \<times> real) list list" where
  "class_ranges =
     [[(140, 255), (20, 80), (5, 40), (0, 25), (10, 60), (30, 100), (10, 50), (40, 120)],
      [(40, 100), (150, 255), (30, 80), (10, 50), (50, 110), (180, 255), (50, 100), (120, 200)],
      [(20, 70), (30, 80), (160, 255), (20, 70), (100, 170), (100, 180), (100, 160), (100, 180)],
      [(10, 50), (15, 60), (40, 100), (170, 255), (170, 248), (120, 210), (160, 230), (130, 220)]]"

fun draw_features ::
  "'g np_random \<Rightarrow> 'g \<Rightarrow> nat \<Rightarrow> (real \<times> real) list \<Rightarrow> real list list \<times> 'g" where
  "draw_features R g n [] = ([], g)"
| "draw_features R g n ((lo, hi) # rs) =
     (let (col, g1) = uniform R g lo hi n;
          (cols, g2) = draw_features R g1 n rs
      in (col # cols, g2))"

text \<open>\<open>np.column_stack\<close> of columns of length \<open>n\<close>.\<close>

definition column_stack :: "nat \<Rightarrow> real list list \<Rightarrow> real ndarray" where
  "column_stack n cols = mk2 n (length cols) (\<lambda>i j. cols ! j ! i)"

fun draw_classes ::
  "'g np_random \<Rightarrow> 'g \<Rightarrow> nat \<Rightarrow> (real \<times> real) list list \<Rightarrow> real ndarray list \<times> 'g" where
  "draw_classes R g n [] = ([], g)"
| "draw_classes R g n (rs # rest) =
     (let (cols, g1) = draw_features R g n rs;
          (blocks, g2) = draw_classes R g1 n rest
      in (column_stack n cols # blocks, g2))"

text \<open>A block of \<open>n\<close> rows of eight features, each in \<open>[0, 255]\<close>.\<close>

definition block_ok :: "nat \<Rightarrow> real ndarray \<Rightarrow> bool" where
  "block_ok n b \<longleftrightarrow>
     shape b = [n, 8] \<and> length (data b) = n * 8 \<and> (\<forall>v\<in>set (data b). 0 \<le> v \<and> v \<le> 255)"

text \<open>\<open>np.vstack\<close> of blocks of eight columns.\<close>

definition vstack8 :: "real ndarray list \<Rightarrow> real ndarray" where
  "vstack8 blocks =
     \<lparr>shape = [sum_list (map (\<lambda>b. hd (shape b)) blocks), 8], data = concat (map data blocks)\<rparr>"

definition class_labels :: "nat \<Rightarrow> int list" where
  "class_labels n = replicate n 0 @ replicate n 1 @ replicate n 2 @ replicate n 3"

text \<open>
  The generator is built from the seed; the process-wide generator \<open>gs\<close> is neither read
  nor advanced. A negative count makes the first \<open>uniform\<close> call raise ValueError.
\<close>

definition generate_synthetic_data ::
  "'g np_random \<Rightarrow> int \<Rightarrow> int \<Rightarrow> 'g \<Rightarrow> (exn + dataset) \<times> 'g" where
  "generate_synthetic_data R n_samples_per_class seed gs =
     (bind_exn (random_state R seed) (\<lambda>rng.
        if n_samples_per_class < 0 then Inl ValueError
        else let n = nat n_samples_per_class;
                 (blocks, rng1) = draw_classes R rng n class_ranges;
                 X = vstack8 blocks;
                 y = class_labels n;
                 (idx, rng2) = permutation R rng1 (length y)
             in Inr (take_rows X idx, take_elems y idx)),
      gs)"

subsection \<open>Features of a window: \<open>_extract_features_from_signal\<close>\<close>

text \<open>The magnitudes of \<open>np.fft.rfft\<close>: bins 0 to \<open>n div 2\<close> of the discrete Fourier transform.\<close>

definition rfft_mag :: "real list \<Rightarrow> real list" where
  "rfft_mag x =
     (let n = length x
      in map (\<lambda>k. cmod (sum_list (map (\<lambda>t. of_real (x ! t) * cis (- 2 * pi * real k * real t / real n))
                                     [0..<n])))
           [0..<n div 2 + 1])"

definition py_slice :: "nat \<Rightarrow> nat \<Rightarrow> 'a list \<Rightarrow> 'a list" where
  "py_slice a b xs = take (b - a) (drop a xs)"

text \<open>\<open>np.arange(32) * mag\<close>: element by element; a \<open>mag\<close> of one element is repeated.\<close>

definition arange32_times :: "real list \<Rightarrow> exn + real list" where
  "arange32_times mag =
     (if length mag = 32 then Inr (map2 (*) (map real [0..<32]) mag)
      else if length mag = 1 then Inr (map (\<lambda>i. real i * hd mag) [0..<32])
      else Inl ValueError)"

definition extract_features_from_signal :: "real list \<Rightarrow> exn + real list" where
  "extract_features_from_signal segment =
     (let x = take 64 segment
      in if x = [] then Inl ValueError
         else let mag = take 32 (rfft_mag x);
                  band_low = sum_list (py_slice 1 5 mag);
                  band_midlow = sum_list (py_slice 5 11 mag);
                  band_midhi = sum_list (py_slice 11 21 mag);
                  band_high = sum_list (py_slice 21 32 mag)
              in bind_exn (np_argmax mag) (\<lambda>peak_bin.
                 let peak_mag_val = mag ! peak_bin;
                     total = sum_list mag
                 in bind_exn (if 0 < total
                              then bind_exn (arange32_times mag) (\<lambda>ws. np_divide (sum_list ws) total)
                              else Inr 0) (\<lambda>centroid.
                    Inr [band_low, band_midlow, band_midhi, band_high,
                         real peak_bin * 8, peak_mag_val, centroid * 8, total])))"

subsection \<open>Real data: \<open>load_cwru_data\<close>\<close>

text \<open>
  A \<open>.mat\<close> file as \<open>loadmat\<close> returns it: its keys in order, each with its array flattened.
  The environment says whether scipy can be imported and which paths are files.
\<close>

type_synonym mat_file = "(string \<times> real list) list"

record env =
  scipy_installed :: bool
  files :: "string \<Rightarrow> mat_file option"

definition file_class_map :: "(string \<times> int) list" where
  "file_class_map = [(''Normal.mat'', 0), (''B007.mat'', 1), (''IR007.mat'', 2), (''OR007.mat'', 3)]"

definition endswith :: "string \<Rightarrow> string \<Rightarrow> bool" where
  "endswith s suffix \<longleftrightarrow>
     length suffix \<le> length s \<and> drop (length s - length suffix) s = suffix"

definition path_join :: "string \<Rightarrow> string \<Rightarrow> string" where
  "path_join a b =
     (if a = [] then b else if last a = CHR ''/'' then a @ b else a @ ''/'' @ b)"

fun map_exn :: "('a \<Rightarrow> exn + 'b) \<Rightarrow> 'a list \<Rightarrow> exn + 'b list" where
  "map_exn f [] = Inr []"
| "map_exn f (x # xs) =
     bind_exn (f x) (\<lambda>y. bind_exn (map_exn f xs) (\<lambda>ys. Inr (y # ys)))"

text \<open>The loop over the four files: the rows of \<open>X_all\<close>, each with its entry of \<open>y_all\<close>.\<close>

fun collect_windows :: "env \<Rightarrow> string \<Rightarrow> (string \<times> int) list \<Rightarrow> exn + (real list \<times> int) list" where
  "collect_windows e data_dir [] = Inr []"
| "collect_windows e data_dir ((fname, label) # rest) =
     (case files e (path_join data_dir fname) of
        None \<Rightarrow> collect_windows e data_dir rest
      | Some mat \<Rightarrow>
          (case find (\<lambda>(k, v). endswith k ''_DE_time'') mat of
             None \<Rightarrow> collect_windows e data_dir rest
           | Some (de_key, signal) \<Rightarrow>
               bind_exn (map_exn extract_features_from_signal (segments signal)) (\<lambda>fs.
               bind_exn (collect_windows e data_dir rest) (\<lambda>more.
                 Inr (map (\<lambda>f. (f, label)) fs @ more)))))"

text \<open>One column scaled to \<open>[0, 255]\<close>; a constant column becomes zero.\<close>

definition normalize_col :: "real list \<Rightarrow> real list" where
  "normalize_col col =
     (let cmin = Min (set col); cmax = Max (set col)
      in if cmin < cmax then map (\<lambda>v. (v - cmin) / (cmax - cmin) * 255) col
         else map (\<lambda>_. 0) col)"

definition normalize_features :: "real list list \<Rightarrow> real ndarray" where
  "normalize_features rows_in =
     mk2 (length rows_in) 8 (\<lambda>i j. normalize_col (map (\<lambda>r. r ! j) rows_in) ! i)"

text \<open>
  The final shuffle calls \<open>np.random.permutation\<close>: it reads and advances the process-wide
  generator \<open>gs\<close>.
\<close>

definition load_cwru_data ::
  "'g np_random \<Rightarrow> env \<Rightarrow> string \<Rightarrow> 'g \<Rightarrow> (abort + dataset) \<times> 'g" where
  "load_cwru_data R e data_dir gs =
     (if \<not> scipy_installed e then (Inl (SystemExit 1), gs)
      else case collect_windows e data_dir file_class_map of
             Inl ex \<Rightarrow> (Inl (Raised ex), gs)
           | Inr all_rows \<Rightarrow>
               if all_rows = [] then (Inl (SystemExit 1), gs)
               else let X = normalize_features (map fst all_rows);
                        y = map snd all_rows;
                        (idx, gs') = permutation R gs (length y)
                    in (Inr (take_rows X idx, take_elems y idx), gs'))"

subsection \<open>Training: \<open>train\<close>\<close>

text \<open>
  The parameter arrays are objects that \<open>train\<close> updates in place and copies, so they live
  in a store: a list of arrays, an address being a position in it. \<open>alloc\<close> adds a new
  object, \<open>np_copy\<close> is \<open>a.copy()\<close> and \<open>isub\<close> is \<open>a -= g\<close>, which changes the object at the
  address and no other. The arrays that are never changed after their creation
  (batches, activations, gradients) are plain values.
\<close>

type_synonym addr = nat
type_synonym store = "real ndarray list"
type_synonym params = "addr \<times> addr \<times> addr \<times> addr"
type_synonym param_values = "real ndarray \<times> real ndarray \<times> real ndarray \<times> real ndarray"

definition alloc :: "store \<Rightarrow> real ndarray \<Rightarrow> store \<times> addr" where
  "alloc h a = (h @ [a], length h)"

definition np_copy :: "store \<Rightarrow> addr \<Rightarrow> store \<times> addr" where
  "np_copy h p = alloc h (h ! p)"

definition sub_arrays :: "real ndarray \<Rightarrow> real ndarray \<Rightarrow> exn + real ndarray" where
  "sub_arrays a g =
     (if shape a = shape g then Inr \<lparr>shape = shape a, data = map2 (-) (data a) (data g)\<rparr>
      else Inl ValueError)"

definition isub :: "store \<Rightarrow> addr \<Rightarrow> real ndarray \<Rightarrow> exn + store" where
  "isub h p g = bind_exn (sub_arrays (h ! p) g) (\<lambda>a. Inr (h[p := a]))"

definition read_params :: "store \<Rightarrow> params \<Rightarrow> param_values" where
  "read_params h p = (case p of (W1, b1, W2, b2) \<Rightarrow> (h ! W1, h ! b1, h ! W2, h ! b2))"

text \<open>\<open>(W1.copy(), b1.copy(), W2.copy(), b2.copy())\<close>\<close>

definition copy_params :: "store \<Rightarrow> params \<Rightarrow> store \<times> params" where
  "copy_params h p =
     (case p of (W1, b1, W2, b2) \<Rightarrow>
        let (h1, c1) = np_copy h W1;
            (h2, c2) = np_copy h1 b1;
            (h3, c3) = np_copy h2 W2;
            (h4, c4) = np_copy h3 b2
        in (h4, (c1, c2, c3, c4)))"

record 'g train_state =
  store_of :: store
  rng_of :: 'g
  lr_of :: real
  best_val_acc :: real
  best_params :: params

text \<open>\<open>X[start:end]\<close> for a matrix, and \<open>y[idx]\<close>, which raises IndexError on an index out of range.\<close>

definition slice_rows :: "'a ndarray \<Rightarrow> nat \<Rightarrow> nat \<Rightarrow> 'a ndarray" where
  "slice_rows X start stop = mk2 (stop - start) (ncols X) (\<lambda>i j. at2 X (start + i) j)"

definition index_elems :: "'a list \<Rightarrow> nat list \<Rightarrow> exn + 'a list" where
  "index_elems y idx =
     (if list_all (\<lambda>i. i < length y) idx then Inr (take_elems y idx) else Inl IndexError)"

text \<open>
  \<open>range(0, n_train, batch_size)\<close>: a zero step raises ValueError, a negative one gives no
  start at all.
\<close>

definition range_starts :: "nat \<Rightarrow> int \<Rightarrow> exn + nat list" where
  "range_starts n batch_size =
     (if batch_size = 0 then Inl ValueError
      else if batch_size < 0 then Inr []
      else Inr (map (\<lambda>k. k * nat batch_size) [0..<(n + nat batch_size - 1) div nat batch_size]))"

fun fold_exn :: "('a \<Rightarrow> 's \<Rightarrow> exn + 's) \<Rightarrow> 'a list \<Rightarrow> 's \<Rightarrow> exn + 's" where
  "fold_exn f [] s = Inr s"
| "fold_exn f (x # xs) s = bind_exn (f x s) (fold_exn f xs)"

text \<open>
  The body of the batch loop: forward pass, loss, backward pass and the four updates in
  place. The loss only feeds the progress line, which the model does not print.
\<close>

definition sgd_batch ::
  "params \<Rightarrow> real \<Rightarrow> real ndarray \<Rightarrow> int list \<Rightarrow> store \<Rightarrow> exn + store" where
  "sgd_batch p lr Xb yb h =
     (case p of (W1, b1, W2, b2) \<Rightarrow>
        bind_exn (forward Xb (h ! W1) (h ! b1) (h ! W2) (h ! b2)) (\<lambda>(z1, h1, z2, probs).
        bind_exn (cross_entropy_loss probs yb) (\<lambda>loss.
        bind_exn (backward Xb z1 h1 probs yb (h ! W2)) (\<lambda>(dW1, db1, dW2, db2).
        bind_exn (isub h W1 (scalar_mul lr dW1)) (\<lambda>h1'.
        bind_exn (isub h1' b1 (scalar_mul lr db1)) (\<lambda>h2'.
        bind_exn (isub h2' W2 (scalar_mul lr dW2)) (\<lambda>h3'.
        isub h3' b2 (scalar_mul lr db2))))))))"

text \<open>
  \<open>val_preds == y_val\<close> as zeros and ones; operands of different lengths, neither of length
  one, raise ValueError (numpy 1.25 and later).
\<close>

definition eq_elems :: "nat list \<Rightarrow> int list \<Rightarrow> exn + real list" where
  "eq_elems ps ys =
     (if length ps = length ys then Inr (map2 (\<lambda>p y. if int p = y then 1 else 0) ps ys)
      else if length ys = 1 then Inr (map (\<lambda>p. if int p = hd ys then 1 else 0) ps)
      else if length ps = 1 then Inr (map (\<lambda>y. if int (hd ps) = y then 1 else 0) ys)
      else Inl ValueError)"

text \<open>The validation accuracy of lines 384 to 386; \<open>None\<close> is the \<open>nan\<close> of an empty validation set.\<close>

definition validation_accuracy ::
  "real ndarray \<Rightarrow> int list \<Rightarrow> param_values \<Rightarrow> exn + real option" where
  "validation_accuracy X_val y_val v =
     (case v of (W1, b1, W2, b2) \<Rightarrow>
        bind_exn (forward X_val W1 b1 W2 b2) (\<lambda>(z1, h1, z2, val_probs).
        bind_exn (argmax_axis1 val_probs) (\<lambda>val_preds.
        bind_exn (eq_elems val_preds y_val) (\<lambda>hits. Inr (np_mean hits)))))"

text \<open>\<open>val_acc > best_val_acc\<close>; a comparison with \<open>nan\<close> is false.\<close>

definition exceeds :: "real option \<Rightarrow> real \<Rightarrow> bool" where
  "exceeds val_acc best = (case val_acc of None \<Rightarrow> False | Some a \<Rightarrow> best < a)"

text \<open>
  One turn of the epoch loop. With no batch at all, \<open>epoch_loss /= n_batches\<close> divides the
  Python float by zero and raises ZeroDivisionError.
\<close>

definition train_epoch ::
  "'g np_random \<Rightarrow> params \<Rightarrow> real ndarray \<Rightarrow> int list \<Rightarrow> real ndarray \<Rightarrow> int list
     \<Rightarrow> int \<Rightarrow> real \<Rightarrow> 'g train_state \<Rightarrow> exn + 'g train_state" where
  "train_epoch R p X_train y_train X_val y_val batch_size lr_decay st =
     bind_exn (dims2 X_train) (\<lambda>(n_train, d).
     let (perm, rng') = permutation R (rng_of st) n_train;
         X_shuf = take_rows X_train perm
     in bind_exn (index_elems y_train perm) (\<lambda>y_shuf.
        bind_exn (range_starts n_train batch_size) (\<lambda>starts.
        bind_exn (fold_exn (\<lambda>start h.
                    let stop = min (start + nat batch_size) n_train
                    in sgd_batch p (lr_of st) (slice_rows X_shuf start stop)
                         (py_slice start stop y_shuf) h)
                    starts (store_of st)) (\<lambda>h.
        if starts = [] then Inl ZeroDivisionError
        else bind_exn (validation_accuracy X_val y_val (read_params h p)) (\<lambda>val_acc.
             if exceeds val_acc (best_val_acc st)
             then let (h', best) = copy_params h p
                  in Inr \<lparr>store_of = h', rng_of = rng', lr_of = lr_of st * lr_decay,
                          best_val_acc = the val_acc, best_params = best\<rparr>
             else Inr \<lparr>store_of = h, rng_of = rng', lr_of = lr_of st * lr_decay,
                       best_val_acc = best_val_acc st, best_params = best_params st\<rparr>)))))"

fun train_epochs ::
  "nat \<Rightarrow> ('g train_state \<Rightarrow> exn + 'g train_state) \<Rightarrow> 'g train_state \<Rightarrow> exn + 'g train_state" where
  "train_epochs 0 body st = Inr st"
| "train_epochs (Suc k) body st = bind_exn (body st) (train_epochs k body)"

definition zeros1 :: "nat \<Rightarrow> real ndarray" where
  "zeros1 n = mk1 n (\<lambda>i. 0)"

text \<open>
  \<open>train\<close>: the initial parameters are the objects at the addresses 0 to 3, the first
  snapshot their copies. The result is the tuple \<open>best_params\<close>, read when the function
  returns.
\<close>

definition train ::
  "'g np_random \<Rightarrow> real ndarray \<Rightarrow> int list \<Rightarrow> real ndarray \<Rightarrow> int list
     \<Rightarrow> int \<Rightarrow> int \<Rightarrow> real \<Rightarrow> real \<Rightarrow> int \<Rightarrow> exn + param_values" where
  "train R X_train y_train X_val y_val epochs batch_size lr lr_decay seed =
     bind_exn (random_state R seed) (\<lambda>rng.
     let (r1, rng1) = randn R rng 16 8;
         (r2, rng2) = randn R rng1 4 16;
         h0 = [scalar_mul (sqrt (2 / 8)) r1, zeros1 16, scalar_mul (sqrt (2 / 16)) r2, zeros1 4];
         p = (0, 1, 2, 3)
     in bind_exn (dims2 X_train) (\<lambda>(n_train, d).
        let (h1, best) = copy_params h0 p;
            st0 = \<lparr>store_of = h1, rng_of = rng2, lr_of = lr, best_val_acc = 0, best_params = best\<rparr>
        in bind_exn (train_epochs (nat epochs)
                       (train_epoch R p X_train y_train X_val y_val batch_size lr_decay) st0) (\<lambda>st.
           Inr (read_params (store_of st) (best_params st)))))"

text \<open>
  The trainer as the design document describes it, over values: each epoch updates the
  working parameters batch by batch with \<open>param -= lr * grad\<close>; if the validation accuracy
  exceeds the best seen so far, the current parameters are copied by value as the new
  best (a tie does not replace); the best snapshot is returned.
\<close>

definition sgd_batch_spec ::
  "real \<Rightarrow> real ndarray \<Rightarrow> int list \<Rightarrow> param_values \<Rightarrow> exn + param_values" where
  "sgd_batch_spec lr Xb yb v =
     (case v of (W1, b1, W2, b2) \<Rightarrow>
        bind_exn (forward Xb W1 b1 W2 b2) (\<lambda>(z1, h1, z2, probs).
        bind_exn (cross_entropy_loss probs yb) (\<lambda>loss.
        bind_exn (backward Xb z1 h1 probs yb W2) (\<lambda>(dW1, db1, dW2, db2).
        bind_exn (sub_arrays W1 (scalar_mul lr dW1)) (\<lambda>W1'.
        bind_exn (sub_arrays b1 (scalar_mul lr db1)) (\<lambda>b1'.
        bind_exn (sub_arrays W2 (scalar_mul lr dW2)) (\<lambda>W2'.
        bind_exn (sub_arrays b2 (scalar_mul lr db2)) (\<lambda>b2'.
          Inr (W1', b1', W2', b2')))))))))"

record 'g spec_state =
  working :: param_values
  best :: param_values
  best_acc :: real
  rate :: real
  gen :: 'g

definition train_epoch_spec ::
  "'g np_random \<Rightarrow> real ndarray \<Rightarrow> int list \<Rightarrow> real ndarray \<Rightarrow> int list
     \<Rightarrow> int \<Rightarrow> real \<Rightarrow> 'g spec_state \<Rightarrow> exn + 'g spec_state" where
  "train_epoch_spec R X_train y_train X_val y_val batch_size lr_decay s =
     bind_exn (dims2 X_train) (\<lambda>(n_train, d).
     let (perm, g') = permutation R (gen s) n_train;
         X_shuf = take_rows X_train perm
     in bind_exn (index_elems y_train perm) (\<lambda>y_shuf.
        bind_exn (range_starts n_train batch_size) (\<lambda>starts.
        bind_exn (fold_exn (\<lambda>start v.
                    let stop = min (start + nat batch_size) n_train
                    in sgd_batch_spec (rate s) (slice_rows X_shuf start stop)
                         (py_slice start stop y_shuf) v)
                    starts (working s)) (\<lambda>v.
        if starts = [] then Inl ZeroDivisionError
        else bind_exn (validation_accuracy X_val y_val v) (\<lambda>val_acc.
             if exceeds val_acc (best_acc s)
             then Inr \<lparr>working = v, best = v, best_acc = the val_acc,
                       rate = rate s * lr_decay, gen = g'\<rparr>
             else Inr \<lparr>working = v, best = best s, best_acc = best_acc s,
                       rate = rate s * lr_decay, gen = g'\<rparr>)))))"

fun train_epochs_spec ::
  "nat \<Rightarrow> ('g spec_state \<Rightarrow> exn + 'g spec_state) \<Rightarrow> 'g spec_state \<Rightarrow> exn + 'g spec_state" where
  "train_epochs_spec 0 body s = Inr s"
| "train_epochs_spec (Suc k) body s = bind_exn (body s) (train_epochs_spec k body)"

definition train_spec ::
  "'g np_random \<Rightarrow> real ndarray \<Rightarrow> int list \<Rightarrow> real ndarray \<Rightarrow> int list
     \<Rightarrow> int \<Rightarrow> int \<Rightarrow> real \<Rightarrow> real \<Rightarrow> int \<Rightarrow> exn + param_values" where
  "train_spec R X_train y_train X_val y_val epochs batch_size lr lr_decay seed =
     bind_exn (random_state R seed) (\<lambda>rng.
     let (r1, rng1) = randn R rng 16 8;
         (r2, rng2) = randn R rng1 4 16;
         v0 = (scalar_mul (sqrt (2 / 8)) r1, zeros1 16, scalar_mul (sqrt (2 / 16)) r2, zeros1 4)
     in bind_exn (dims2 X_train) (\<lambda>(n_train, d).
        bind_exn (train_epochs_spec (nat epochs)
                    (train_epoch_spec R X_train y_train X_val y_val batch_size lr_decay)
                    \<lparr>working = v0, best = v0, best_acc = 0, rate = lr, gen = rng2\<rparr>) (\<lambda>s.
          Inr (best s))))"

text \<open>
  A directory for running the loader on a concrete input: two of the four files exist,
  each with a drive-end signal of 1536 zero samples.
\<close>

definition sample_env :: env where
  "sample_env =
     \<lparr>scipy_installed = True,
      files = (\<lambda>p. if p = ''data/Normal.mat'' then Some [(''X097_DE_time'', replicate 1536 0)]
                    else if p = ''data/B007.mat'' then Some [(''X118_DE_time'', replicate 1536 0)]
                    else None)\<rparr>"

section \<open>Verification\<close>

subsection \<open>Serialisation\<close>

text \<open>
  Claim C3, as the code has it. \<open>save_weights\<close> fails its size assertion exactly when the four
  tensors do not hold 212 elements in total, whatever their shapes; on the shapes
  \<open>(16,8)\<close>, \<open>(16,)\<close>, \<open>(4,16)\<close>, \<open>(4,)\<close> it returns the 212 entries in the order \<open>W1\<close> row-major
  (entries 0 to 127), \<open>b1\<close> (128 to 143), \<open>W2\<close> row-major (144 to 207), \<open>b2\<close> (208 to 211).
\<close>

theorem save_weights_layout:
  "(save_weights W1_q b1_q W2_q b2_q sc = Inl AssertionError
      \<longleftrightarrow> np_size W1_q + np_size b1_q + np_size W2_q + np_size b2_q \<noteq> 212)
   \<and> (wf_ndarray W1_q \<and> shape W1_q = [16, 8] \<and> wf_ndarray b1_q \<and> shape b1_q = [16]
      \<and> wf_ndarray W2_q \<and> shape W2_q = [4, 16] \<and> wf_ndarray b2_q \<and> shape b2_q = [4]
      \<longrightarrow> (\<exists>art. save_weights W1_q b1_q W2_q b2_q sc = Inr art
            \<and> length (all_weights art) = 212
            \<and> all_weights art = data W1_q @ data b1_q @ data W2_q @ data b2_q
            \<and> (\<forall>i<16. \<forall>j<8. all_weights art ! (i * 8 + j) = data W1_q ! (i * 8 + j))
            \<and> (\<forall>i<16. all_weights art ! (128 + i) = data b1_q ! i)
            \<and> (\<forall>i<4. \<forall>j<16. all_weights art ! (144 + i * 16 + j) = data W2_q ! (i * 16 + j))
            \<and> (\<forall>i<4. all_weights art ! (208 + i) = data b2_q ! i)))"
proof (intro conjI impI)
  show "save_weights W1_q b1_q W2_q b2_q sc = Inl AssertionError
      \<longleftrightarrow> np_size W1_q + np_size b1_q + np_size W2_q + np_size b2_q \<noteq> 212"
    by (simp add: save_weights_def Let_def flatten_def np_size_def)
next
  assume a: "wf_ndarray W1_q \<and> shape W1_q = [16, 8] \<and> wf_ndarray b1_q \<and> shape b1_q = [16]
      \<and> wf_ndarray W2_q \<and> shape W2_q = [4, 16] \<and> wf_ndarray b2_q \<and> shape b2_q = [4]"
  then have l: "length (data W1_q) = 128" "length (data b1_q) = 16"
    "length (data W2_q) = 64" "length (data b2_q) = 4"
    by (simp_all add: wf_ndarray_def)
  let ?art = "\<lparr>layer1_weights = W1_q, layer1_biases = b1_q,
                   layer2_weights = W2_q, layer2_biases = b2_q,
                   all_weights = data W1_q @ data b1_q @ data W2_q @ data b2_q, scales = sc\<rparr>"
  have run: "save_weights W1_q b1_q W2_q b2_q sc = Inr ?art"
    using l by (simp add: save_weights_def Let_def flatten_def np_size_def)
  have p1: "\<forall>i<16. \<forall>j<8. all_weights ?art ! (i * 8 + j) = data W1_q ! (i * 8 + j)"
  proof (intro allI impI)
    fix i j :: nat assume "i < 16" "j < 8"
    then have "i * 8 + j < 128" by arith
    then show "all_weights ?art ! (i * 8 + j) = data W1_q ! (i * 8 + j)"
      using l by (simp add: nth_append)
  qed
  have p2: "\<forall>i<16. all_weights ?art ! (128 + i) = data b1_q ! i"
    using l by (simp add: nth_append)
  have p3: "\<forall>i<4. \<forall>j<16. all_weights ?art ! (144 + i * 16 + j) = data W2_q ! (i * 16 + j)"
  proof (intro allI impI)
    fix i j :: nat assume "i < 4" "j < 16"
    then have "i * 16 + j < 64" by arith
    then show "all_weights ?art ! (144 + i * 16 + j) = data W2_q ! (i * 16 + j)"
      using l by (simp add: nth_append)
  qed
  have p4: "\<forall>i<4. all_weights ?art ! (208 + i) = data b2_q ! i"
    using l by (simp add: nth_append)
  have len: "length (all_weights ?art) = 212" using l by simp
  have eq: "all_weights ?art = data W1_q @ data b1_q @ data W2_q @ data b2_q" by simp
  show "\<exists>art. save_weights W1_q b1_q W2_q b2_q sc = Inr art
            \<and> length (all_weights art) = 212
            \<and> all_weights art = data W1_q @ data b1_q @ data W2_q @ data b2_q
            \<and> (\<forall>i<16. \<forall>j<8. all_weights art ! (i * 8 + j) = data W1_q ! (i * 8 + j))
            \<and> (\<forall>i<16. all_weights art ! (128 + i) = data b1_q ! i)
            \<and> (\<forall>i<4. \<forall>j<16. all_weights art ! (144 + i * 16 + j) = data W2_q ! (i * 16 + j))
            \<and> (\<forall>i<4. all_weights art ! (208 + i) = data b2_q ! i)"
    by (intro exI[of _ ?art] conjI run len eq p1 p2 p3 p4)
qed

theorem save_weights_layout_witness:
  "\<exists>art. save_weights \<lparr>shape = [16, 8], data = replicate 128 1\<rparr> \<lparr>shape = [16], data = replicate 16 2\<rparr>
      \<lparr>shape = [4, 16], data = replicate 64 3\<rparr> \<lparr>shape = [4], data = replicate 4 4\<rparr> [1, 1, 1, 1] = Inr art
    \<and> length (all_weights art) = 212
    \<and> all_weights art ! (128 + 2) = 2 \<and> all_weights art ! (208 + 3) = 4"
proof -
  let ?W1 = "\<lparr>shape = [16, 8], data = replicate 128 (1::int8)\<rparr>"
  let ?b1 = "\<lparr>shape = [16], data = replicate 16 (2::int8)\<rparr>"
  let ?W2 = "\<lparr>shape = [4, 16], data = replicate 64 (3::int8)\<rparr>"
  let ?b2 = "\<lparr>shape = [4], data = replicate 4 (4::int8)\<rparr>"
  have h: "wf_ndarray ?W1 \<and> shape ?W1 = [16, 8] \<and> wf_ndarray ?b1 \<and> shape ?b1 = [16]
      \<and> wf_ndarray ?W2 \<and> shape ?W2 = [4, 16] \<and> wf_ndarray ?b2 \<and> shape ?b2 = [4]"
    by (simp add: wf_ndarray_def)
  from save_weights_layout[of ?W1 ?b1 ?W2 ?b2 "[1, 1, 1, 1]"] h
  obtain art where a: "save_weights ?W1 ?b1 ?W2 ?b2 [1, 1, 1, 1] = Inr art"
    "length (all_weights art) = 212"
    "\<forall>i<16. all_weights art ! (128 + i) = data ?b1 ! i"
    "\<forall>i<4. all_weights art ! (208 + i) = data ?b2 ! i"
    by blast
  have "all_weights art ! (128 + 2) = data ?b1 ! 2"
    using a(3)[rule_format, of 2] by simp
  moreover have "all_weights art ! (208 + 3) = data ?b2 ! 3"
    using a(4)[rule_format, of 3] by simp
  ultimately show ?thesis using a(1,2) by simp
qed

text \<open>
  Claim C3 as stated fails: the transposed shapes \<open>(8,16)\<close> and \<open>(16,4)\<close> also hold 212 elements
  in total, and \<open>save_weights\<close> accepts them.
\<close>

theorem save_weights_other_shapes_accepted:
  "save_weights \<lparr>shape = [8, 16], data = replicate 128 0\<rparr> \<lparr>shape = [16], data = replicate 16 0\<rparr>
      \<lparr>shape = [16, 4], data = replicate 64 0\<rparr> \<lparr>shape = [4], data = replicate 4 0\<rparr> [1, 1, 1, 1]
   = Inr \<lparr>layer1_weights = \<lparr>shape = [8, 16], data = replicate 128 0\<rparr>,
          layer1_biases = \<lparr>shape = [16], data = replicate 16 0\<rparr>,
          layer2_weights = \<lparr>shape = [16, 4], data = replicate 64 0\<rparr>,
          layer2_biases = \<lparr>shape = [4], data = replicate 4 0\<rparr>,
          all_weights = replicate 212 0, scales = [1, 1, 1, 1]\<rparr>"
  by (simp add: save_weights_def Let_def flatten_def np_size_def flip: replicate_add)

subsection \<open>Windowing\<close>

text \<open>
  Claim C5. A signal of exactly 1024 samples holds one full window, starting at offset 0,
  but the loop bound \<open>(len(signal) - window_size) // hop\<close> is 0 there and no window is read:
  the bound leaves out the last window that fits.
\<close>

theorem segments_of_one_window_signal:
  "0 + window_size \<le> length (replicate 1024 (0::real))
   \<and> n_windows (replicate 1024 (0::real)) = 0
   \<and> segments (replicate 1024 (0::real)) = []"
  by (simp add: segments_def n_windows_def window_size_def hop_def)

subsection \<open>Arrays and the backward pass\<close>

lemma length_concat_grid:
  "length (concat (map (\<lambda>i. map (f i) [0..<c]) [0..<r])) = r * c"
  by (induction r) simp_all

lemma nth_concat_grid:
  assumes "i < r" "j < c"
  shows "concat (map (\<lambda>i. map (f i) [0..<c]) [0..<r]) ! (i * c + j) = f i j"
  using assms
proof (induction r)
  case 0
  then show ?case by simp
next
  case (Suc r)
  show ?case
  proof (cases "i < r")
    case True
    then have "i * c + j < r * c"
      using Suc.prems(2) by (metis add_lessD1 less_iff_Suc_add mult_Suc nat_add_left_cancel_less add.commute mult.commute less_le_trans not_less mult_le_mono1 Suc_leI)
    then show ?thesis using Suc.IH[OF True Suc.prems(2)]
      by (simp add: nth_append length_concat_grid)
  next
    case False
    then have "i = r" using Suc.prems(1) by simp
    then show ?thesis using Suc.prems(2)
      by (simp add: nth_append length_concat_grid)
  qed
qed

lemma nth_concat_grid_divmod:
  assumes "idx < r * c"
  shows "concat (map (\<lambda>i. map (f i) [0..<c]) [0..<r]) ! idx = f (idx div c) (idx mod c)"
proof -
  have c: "0 < c" using assms by (cases c) simp_all
  have "idx div c < r" using assms c by (simp add: less_mult_imp_div_less)
  moreover have "idx mod c < c" using c by simp
  ultimately have "concat (map (\<lambda>i. map (f i) [0..<c]) [0..<r]) ! ((idx div c) * c + idx mod c)
      = f (idx div c) (idx mod c)" by (rule nth_concat_grid)
  then show ?thesis by simp
qed

lemma shape_mk2 [simp]: "shape (mk2 r c f) = [r, c]"
  by (simp add: mk2_def)

lemma ncols_mk2 [simp]: "ncols (mk2 r c f) = c"
  by (simp add: mk2_def ncols_def)

lemma dims2_mk2 [simp]: "dims2 (mk2 r c f) = Inr (r, c)"
  by (simp add: mk2_def dims2_def)

lemma length_data_mk2 [simp]: "length (data (mk2 r c f)) = r * c"
  by (simp add: mk2_def length_concat_grid)

lemma wf_mk2 [simp]: "wf_ndarray (mk2 r c f)"
  by (simp add: wf_ndarray_def)

lemma at2_mk2: "i < r \<Longrightarrow> j < c \<Longrightarrow> at2 (mk2 r c f) i j = f i j"
  by (simp add: at2_def) (simp add: mk2_def nth_concat_grid)

lemma mk2_cong: 
  assumes "\<And>i j. i < r \<Longrightarrow> j < c \<Longrightarrow> f i j = g i j"
  shows "mk2 r c f = mk2 r c g"
proof -
  have "map (\<lambda>i. map (f i) [0..<c]) [0..<r] = map (\<lambda>i. map (g i) [0..<c]) [0..<r]"
    using assms by (intro map_cong refl) simp
  then show ?thesis unfolding mk2_def by (simp only:)
qed

lemma mk1_cong:
  assumes "\<And>i. i < n \<Longrightarrow> f i = g i"
  shows "mk1 n f = mk1 n g"
  using assms by (simp add: mk1_def)

lemma ndarray_eq_mk2I:
  assumes sh: "shape a = [r, c]" and len: "length (data a) = r * c"
    and el: "\<And>i j. i < r \<Longrightarrow> j < c \<Longrightarrow> at2 a i j = f i j"
  shows "a = mk2 r c f"
proof -
  have nc: "ncols a = c" using sh by (simp add: ncols_def)
  have "data a = data (mk2 r c f)"
  proof (rule nth_equalityI)
    show "length (data a) = length (data (mk2 r c f))" using len by simp
  next
    fix idx assume "idx < length (data a)"
    then have lt: "idx < r * c" using len by simp
    then have c: "0 < c" by (cases c) simp_all
    have i: "idx div c < r" using lt c by (simp add: less_mult_imp_div_less)
    have j: "idx mod c < c" using c by simp
    have "data a ! idx = at2 a (idx div c) (idx mod c)" by (simp add: at2_def nc)
    also have "\<dots> = f (idx div c) (idx mod c)" by (rule el[OF i j])
    also have "\<dots> = data (mk2 r c f) ! idx"
      by (simp add: mk2_def nth_concat_grid_divmod[OF lt])
    finally show "data a ! idx = data (mk2 r c f) ! idx" .
  qed
  then show ?thesis using sh by (cases a) (simp add: mk2_def)
qed

lemma sum_list_upt_sum: "sum_list (map f [0..<n]) = (\<Sum>i<n. f i)"
  by (simp add: interv_sum_list_conv_sum_set_nat atLeast0LessThan)

lemma norm_index_ok: "0 \<le> i \<Longrightarrow> i < int n \<Longrightarrow> norm_index n i = Inr (nat i)"
  by (simp add: norm_index_def)

lemma norm_pairs_ok:
  assumes "\<forall>(i, j)\<in>set ps. 0 \<le> i \<and> i < int r \<and> 0 \<le> j \<and> j < int c"
  shows "norm_pairs r c ps = Inr (map (\<lambda>(i, j). (nat i, nat j)) ps)"
  using assms
  by (induction ps) (auto simp: bind_exn_def norm_index_ok)

lemma pairs_arange:
  assumes "length ls = n"
  shows "map (\<lambda>(i, j). (nat i, nat j)) (zip (arange n) ls) = map (\<lambda>i. (i, nat (ls ! i))) [0..<n]"
  using assms by (intro nth_equalityI) (simp_all add: arange_def)

lemma set2_shape [simp]: "shape (set2 a i j v) = shape a"
  by (simp add: set2_def)

lemma set2_ncols [simp]: "ncols (set2 a i j v) = ncols a"
  by (simp add: ncols_def)

lemma set2_length [simp]: "length (data (set2 a i j v)) = length (data a)"
  by (simp add: set2_def)

lemma flat_index_inj:
  assumes "j < c" "j' < c" "i * c + j = i' * c + (j'::nat)"
  shows "i = i' \<and> j = j'"
proof -
  have "(i * c + j) div c = i" using assms(1) by simp
  moreover have "(i' * c + j') div c = i'" using assms(2) by simp
  ultimately have "i = i'" using assms(3) by metis
  then show ?thesis using assms(3) by simp
qed

lemma flat_index_lt: "i < r \<Longrightarrow> j < c \<Longrightarrow> i * c + j < r * (c::nat)"
proof -
  assume a: "i < r" "j < c"
  then have "i * c + j < i * c + c" by simp
  also have "\<dots> = Suc i * c" by simp
  also have "\<dots> \<le> r * c" using a(1) by (intro mult_le_mono1) simp
  finally show ?thesis .
qed

lemma at2_set2:
  assumes "shape a = [r, c]" "length (data a) = r * c" "i < r" "j < c" "i' < r" "j' < c"
  shows "at2 (set2 a i j v) i' j' = (if i' = i \<and> j' = j then v else at2 a i' j')"
proof -
  have nc: "ncols a = c" using assms(1) by (simp add: ncols_def)
  have lt: "i * c + j < length (data a)" "i' * c + j' < length (data a)"
    using assms flat_index_lt by simp_all
  show ?thesis
  proof (cases "i' = i \<and> j' = j")
    case True
    then show ?thesis using lt by (simp add: at2_def nc) (simp add: set2_def nc)
  next
    case False
    then have "i * c + j \<noteq> i' * c + j'" using flat_index_inj[OF assms(4) assms(6)] by blast
    then show ?thesis using False lt by (simp add: at2_def nc) (simp add: set2_def nc)
  qed
qed

lemma fold_set2_rows:
  fixes a :: "real ndarray"
  assumes sh: "shape a = [n, k]" and len: "length (data a) = n * k"
    and m: "m \<le> n" and cs: "\<forall>i<n. cs i < k"
  shows "shape (fold (\<lambda>(i, j) b. set2 b i j (at2 a i j - v)) (map (\<lambda>i. (i, cs i)) [0..<m]) a) = [n, k]
     \<and> length (data (fold (\<lambda>(i, j) b. set2 b i j (at2 a i j - v)) (map (\<lambda>i. (i, cs i)) [0..<m]) a)) = n * k
     \<and> (\<forall>i<n. \<forall>j<k. at2 (fold (\<lambda>(i, j) b. set2 b i j (at2 a i j - v)) (map (\<lambda>i. (i, cs i)) [0..<m]) a) i j
           = at2 a i j - (if i < m \<and> j = cs i then v else 0))"
  using m
proof (induction m)
  case 0
  then show ?case using sh len by simp
next
  case (Suc m)
  let ?D = "fold (\<lambda>(i, j) b. set2 b i j (at2 a i j - v)) (map (\<lambda>i. (i, cs i)) [0..<m]) a"
  have IH: "shape ?D = [n, k]" "length (data ?D) = n * k"
    "\<forall>i<n. \<forall>j<k. at2 ?D i j = at2 a i j - (if i < m \<and> j = cs i then v else 0)"
    using Suc by simp_all
  have mn: "m < n" using Suc.prems by simp
  have cm: "cs m < k" using cs mn by simp
  have step: "fold (\<lambda>(i, j) b. set2 b i j (at2 a i j - v)) (map (\<lambda>i. (i, cs i)) [0..<Suc m]) a
      = set2 ?D m (cs m) (at2 a m (cs m) - v)"
    by simp
  have el: "at2 (set2 ?D m (cs m) (at2 a m (cs m) - v)) i j
      = at2 a i j - (if i < Suc m \<and> j = cs i then v else 0)" if "i < n" "j < k" for i j
    using at2_set2[OF IH(1) IH(2) mn cm that] IH(3) that
    by (auto simp: less_Suc_eq)
  show ?case unfolding step using IH(1,2) el by simp
qed

lemma fancy_isub_labels:
  assumes sh: "shape probs = [n, k]" and wf: "wf_ndarray probs"
    and ll: "length labels = n" and lr: "\<forall>l\<in>set labels. 0 \<le> l \<and> l < int k"
  shows "fancy_isub probs (arange n) labels v
     = Inr (mk2 n k (\<lambda>i j. at2 probs i j - (if int j = labels ! i then v else 0)))"
proof -
  have len: "length (data probs) = n * k" using wf sh by (simp add: wf_ndarray_def)
  have bc: "broadcast2 (arange n) labels = Inr (zip (arange n) labels)"
    using ll by (simp add: broadcast2_def arange_def)
  have bounds: "\<forall>(i, j)\<in>set (zip (arange n) labels). 0 \<le> i \<and> i < int n \<and> 0 \<le> j \<and> j < int k"
  proof (clarify)
    fix i j assume "(i, j) \<in> set (zip (arange n) labels)"
    then have "i \<in> set (arange n)" "j \<in> set labels" by (auto dest: set_zip_leftD set_zip_rightD)
    then show "0 \<le> i \<and> i < int n \<and> 0 \<le> j \<and> j < int k" using lr by (auto simp: arange_def)
  qed
  have np: "norm_pairs n k (zip (arange n) labels) = Inr (map (\<lambda>i. (i, nat (labels ! i))) [0..<n])"
    using norm_pairs_ok[OF bounds] pairs_arange[OF ll] by simp
  have cs: "\<forall>i<n. nat (labels ! i) < k" using lr ll by (auto simp: nat_less_iff)
  let ?D = "fold (\<lambda>(i, j) b. set2 b i j (at2 probs i j - v)) (map (\<lambda>i. (i, nat (labels ! i))) [0..<n]) probs"
  note F = fold_set2_rows[OF sh len order_refl cs, of v]
  have "?D = mk2 n k (\<lambda>i j. at2 probs i j - (if int j = labels ! i then v else 0))"
  proof (rule ndarray_eq_mk2I)
    show "shape ?D = [n, k]" using F by simp
    show "length (data ?D) = n * k" using F by simp
    fix i j assume ij: "i < n" "j < k"
    have "0 \<le> labels ! i" using lr ll ij by simp
    then have "(j = nat (labels ! i)) = (int j = labels ! i)" by auto
    then show "at2 ?D i j = at2 probs i j - (if int j = labels ! i then v else 0)"
      using F ij by simp
  qed
  then show ?thesis
    by (simp add: fancy_isub_def dims2_def sh bc np bind_exn_def)
qed

lemma np_T_shape: "shape a = [r, c] \<Longrightarrow> np_T a = Inr (mk2 c r (\<lambda>i j. at2 a j i))"
  by (simp add: np_T_def dims2_def bind_exn_def)

lemma matmul_shape:
  "shape a = [n, k] \<Longrightarrow> shape b = [k, m]
   \<Longrightarrow> matmul a b = Inr (mk2 n m (\<lambda>i j. \<Sum>l<k. at2 a i l * at2 b l j))"
  by (simp add: matmul_def dims2_def bind_exn_def sum_list_upt_sum)

lemma sum_axis0_shape:
  "shape a = [n, m] \<Longrightarrow> sum_axis0 a = Inr (mk1 m (\<lambda>j. \<Sum>i<n. at2 a i j))"
  by (simp add: sum_axis0_def dims2_def bind_exn_def sum_list_upt_sum)

lemma map_data_mk2: "map g (data (mk2 r c f)) = data (mk2 r c (\<lambda>i j. g (f i j)))"
  by (simp add: mk2_def map_concat comp_def)

lemma idiv_scalar_mk2:
  "idiv_scalar (mk2 n k g) n = Inr (mk2 n k (\<lambda>i j. g i j / real n))"
proof -
  have e: "n = 0 \<longrightarrow> data (mk2 n k g) = []" by (simp add: mk2_def)
  have "\<lparr>shape = shape (mk2 n k g), data = map (\<lambda>x. x / real n) (data (mk2 n k g))\<rparr>
      = mk2 n k (\<lambda>i j. g i j / real n)"
    unfolding map_data_mk2 by (simp add: mk2_def)
  then show ?thesis using e by (cases "n = 0") (simp_all add: idiv_scalar_def)
qed

lemma mul_relu_grad:
  assumes sh: "shape z1 = [n, h]" and wf: "wf_ndarray z1"
  shows "mul_elem (mk2 n h g) (relu_grad z1)
     = Inr (mk2 n h (\<lambda>i b. g i b * (if 0 < at2 z1 i b then 1 else 0)))"
proof -
  have len: "length (data z1) = n * h" using wf sh by (simp add: wf_ndarray_def)
  let ?R = "\<lparr>shape = shape (mk2 n h g),
      data = map2 (*) (data (mk2 n h g)) (data (relu_grad z1))\<rparr>"
  have nz: "ncols z1 = h" using sh by (simp add: ncols_def)
  have "?R = mk2 n h (\<lambda>i b. g i b * (if 0 < at2 z1 i b then 1 else 0))"
  proof (rule ndarray_eq_mk2I)
    show "shape ?R = [n, h]" by simp
    show "length (data ?R) = n * h" using len by (simp add: relu_grad_def)
    fix i b assume ib: "i < n" "b < h"
    have lt: "i * h + b < n * h" using ib by (rule flat_index_lt)
    have "at2 ?R i b = data (mk2 n h g) ! (i * h + b) * data (relu_grad z1) ! (i * h + b)"
      using lt len by (simp add: at2_def ncols_def relu_grad_def)
    also have "data (mk2 n h g) ! (i * h + b) = g i b"
      using at2_mk2[OF ib, of g] by (simp add: at2_def)
    also have "data (relu_grad z1) ! (i * h + b) = (if 0 < at2 z1 i b then 1 else 0)"
      using lt len by (simp add: relu_grad_def at2_def nz)
    finally show "at2 ?R i b = g i b * (if 0 < at2 z1 i b then 1 else 0)" .
  qed
  then show ?thesis using sh by (simp add: mul_elem_def relu_grad_def)
qed

text \<open>
  Claim C6. For a batch \<open>X\<close> of \<open>n\<close> rows with one label in \<open>[0, k)\<close> per row, \<open>backward\<close>
  returns exactly the closed-form gradients of \<open>backward_spec\<close>: \<open>dz2\<close> is \<open>probs\<close> with 1
  subtracted at each row's true-label column and divided by the batch size,
  \<open>dW2 = dz2\<^sup>T h1\<close>, \<open>db2\<close> the column sums of \<open>dz2\<close>, \<open>dh1 = dz2 W2\<close>, \<open>dz1\<close> is \<open>dh1\<close> where
  \<open>z1 > 0\<close> and 0 elsewhere, \<open>dW1 = dz1\<^sup>T X\<close>, \<open>db1\<close> the column sums of \<open>dz1\<close>.
\<close>

theorem backward_closed_form:
  assumes X: "shape X = [n, d]" and z1: "shape z1 = [n, h]" "wf_ndarray z1"
    and h1: "shape h1 = [n, h]" and probs: "shape probs = [n, k]" "wf_ndarray probs"
    and W2: "shape W2 = [k, h]"
    and labels: "length labels = n" "\<forall>l\<in>set labels. 0 \<le> l \<and> l < int k"
  shows "backward X z1 h1 probs labels W2 = Inr (backward_spec n d h k X z1 h1 probs labels W2)"
proof -
  let ?dz2_0 = "mk2 n k (\<lambda>i j. at2 probs i j - (if int j = labels ! i then 1 else 0))"
  let ?dz2 = "mk2 n k (dz2_spec n probs labels)"
  let ?dz1 = "mk2 n h (dz1_spec n k z1 probs labels W2)"
  have s1: "fancy_isub probs (arange n) labels 1 = Inr ?dz2_0"
    by (rule fancy_isub_labels[OF probs labels])
  have s2: "idiv_scalar ?dz2_0 n = Inr ?dz2"
    unfolding idiv_scalar_mk2 by (simp add: dz2_spec_def[abs_def])
  have s3: "np_T ?dz2 = Inr (mk2 k n (\<lambda>a i. dz2_spec n probs labels i a))"
    unfolding np_T_shape[OF shape_mk2]
    by (auto intro!: mk2_cong simp: at2_mk2)
  have s4: "matmul (mk2 k n (\<lambda>a i. dz2_spec n probs labels i a)) h1
      = Inr (mk2 k h (\<lambda>a b. \<Sum>i<n. dz2_spec n probs labels i a * at2 h1 i b))"
    unfolding matmul_shape[OF shape_mk2 h1]
    by (auto intro!: mk2_cong sum.cong simp: at2_mk2)
  have s5: "sum_axis0 ?dz2 = Inr (mk1 k (\<lambda>a. \<Sum>i<n. dz2_spec n probs labels i a))"
    unfolding sum_axis0_shape[OF shape_mk2]
    by (auto intro!: mk1_cong sum.cong simp: at2_mk2)
  have s6: "matmul ?dz2 W2 = Inr (mk2 n h (dh1_spec n k probs labels W2))"
    unfolding matmul_shape[OF shape_mk2 W2]
    by (auto intro!: mk2_cong sum.cong simp: at2_mk2 dh1_spec_def)
  have s7: "mul_elem (mk2 n h (dh1_spec n k probs labels W2)) (relu_grad z1) = Inr ?dz1"
    unfolding mul_relu_grad[OF z1] by (simp add: dz1_spec_def[abs_def])
  have s8: "np_T ?dz1 = Inr (mk2 h n (\<lambda>b i. dz1_spec n k z1 probs labels W2 i b))"
    unfolding np_T_shape[OF shape_mk2]
    by (auto intro!: mk2_cong simp: at2_mk2)
  have s9: "matmul (mk2 h n (\<lambda>b i. dz1_spec n k z1 probs labels W2 i b)) X
      = Inr (mk2 h d (\<lambda>b c. \<Sum>i<n. dz1_spec n k z1 probs labels W2 i b * at2 X i c))"
    unfolding matmul_shape[OF shape_mk2 X]
    by (auto intro!: mk2_cong sum.cong simp: at2_mk2)
  have s10: "sum_axis0 ?dz1 = Inr (mk1 h (\<lambda>b. \<Sum>i<n. dz1_spec n k z1 probs labels W2 i b))"
    unfolding sum_axis0_shape[OF shape_mk2]
    by (auto intro!: mk1_cong sum.cong simp: at2_mk2)
  show ?thesis
    unfolding backward_def backward_spec_def
    by (simp add: X bind_exn_def s1 s2 s3 s4 s5 s6 s7 s8 s9 s10)
qed

theorem backward_closed_form_witness:
  "backward \<lparr>shape = [1, 1], data = [2]\<rparr> \<lparr>shape = [1, 1], data = [1]\<rparr>
      \<lparr>shape = [1, 1], data = [1]\<rparr> \<lparr>shape = [1, 2], data = [1 / 2, 1 / 2]\<rparr> [0]
      \<lparr>shape = [2, 1], data = [1, 1]\<rparr>
   = Inr (backward_spec 1 1 1 2 \<lparr>shape = [1, 1], data = [2]\<rparr> \<lparr>shape = [1, 1], data = [1]\<rparr>
      \<lparr>shape = [1, 1], data = [1]\<rparr> \<lparr>shape = [1, 2], data = [1 / 2, 1 / 2]\<rparr> [0]
      \<lparr>shape = [2, 1], data = [1, 1]\<rparr>)"
  by (rule backward_closed_form) (simp_all add: wf_ndarray_def)

subsection \<open>Feature extraction\<close>

lemma rfft_mag_length: "length (rfft_mag x) = length x div 2 + 1"
  by (simp add: rfft_mag_def Let_def)

lemma sum_list_all_zero:
  "(\<And>x. x \<in> set xs \<Longrightarrow> f x = (0::'a::monoid_add)) \<Longrightarrow> sum_list (map f xs) = 0"
  by (induction xs) simp_all

lemma rfft_mag_zeros: "m \<in> set (rfft_mag (replicate n 0)) \<Longrightarrow> m = 0"
proof -
  assume "m \<in> set (rfft_mag (replicate n 0))"
  then obtain k where m: "m = cmod (sum_list (map (\<lambda>t. of_real (replicate n (0::real) ! t)
      * cis (- 2 * pi * real k * real t / real n)) [0..<n]))"
    by (auto simp: rfft_mag_def Let_def)
  have "sum_list (map (\<lambda>t. of_real (replicate n (0::real) ! t)
      * cis (- 2 * pi * real k * real t / real n)) [0..<n]) = 0"
    by (rule sum_list_all_zero) simp
  then show "m = 0" unfolding m by simp
qed

lemma np_argmax_nonempty: "xs \<noteq> [] \<Longrightarrow> \<exists>p. np_argmax xs = Inr p"
  by (cases xs) (simp_all add: np_argmax_def)

lemma np_divide_pos: "0 < y \<Longrightarrow> np_divide x y = Inr (x / y)"
  by (simp add: np_divide_def)

lemma arange32_times_no_fpe: "arange32_times mag \<noteq> Inl FloatingPointError"
  by (simp add: arange32_times_def)

lemma np_argmax_no_fpe: "np_argmax xs \<noteq> Inl FloatingPointError"
  by (cases xs) (simp_all add: np_argmax_def)

text \<open>
  Claim C9. For a window whose magnitude spectrum is all zero, the feature extractor
  returns its eight features and the spectral-centroid feature (position 6) is 0; and on
  no window at all does it divide by a zero total: the division is reached only where the
  total is positive.
\<close>

theorem extract_features_zero_spectrum:
  "(segment \<noteq> [] \<and> (\<forall>m\<in>set (take 32 (rfft_mag (take 64 segment))). m = 0)
      \<longrightarrow> (\<exists>f. extract_features_from_signal segment = Inr f \<and> length f = 8 \<and> f ! 6 = 0))
   \<and> extract_features_from_signal segment \<noteq> Inl FloatingPointError"
proof (intro conjI impI)
  assume a: "segment \<noteq> [] \<and> (\<forall>m\<in>set (take 32 (rfft_mag (take 64 segment))). m = 0)"
  let ?mag = "take 32 (rfft_mag (take 64 segment))"
  have x: "take 64 segment \<noteq> []" using a by simp
  have "length ?mag \<noteq> 0" by (simp add: rfft_mag_length)
  then have ne: "?mag \<noteq> []" by fastforce
  obtain p where p: "np_argmax ?mag = Inr p" using np_argmax_nonempty[OF ne] by blast
  have "sum_list (map (\<lambda>m. m) ?mag) = 0" using a by (intro sum_list_all_zero) simp
  then have tot: "sum_list ?mag = 0" by simp
  show "\<exists>f. extract_features_from_signal segment = Inr f \<and> length f = 8 \<and> f ! 6 = 0"
    using x by (simp add: extract_features_from_signal_def Let_def p tot bind_exn_def)
next
  show "extract_features_from_signal segment \<noteq> Inl FloatingPointError"
  proof (cases "take 64 segment = []")
    case True
    then show ?thesis by (simp add: extract_features_from_signal_def)
  next
    case False
    let ?mag = "take 32 (rfft_mag (take 64 segment))"
    show ?thesis
    proof (cases "np_argmax ?mag")
      case (Inl e)
      then have "e \<noteq> FloatingPointError" using np_argmax_no_fpe[of ?mag] by auto
      then show ?thesis using False Inl
        by (simp add: extract_features_from_signal_def Let_def bind_exn_def)
    next
      case (Inr p)
      show ?thesis
      proof (cases "0 < sum_list ?mag")
        case True
        then show ?thesis using False Inr arange32_times_no_fpe[of ?mag]
          by (cases "arange32_times ?mag")
             (auto simp: extract_features_from_signal_def Let_def bind_exn_def np_divide_def)
      next
        case F: False
        then show ?thesis using False Inr
          by (simp add: extract_features_from_signal_def Let_def bind_exn_def)
      qed
    qed
  qed
qed

theorem extract_features_zero_spectrum_witness:
  "\<exists>f. extract_features_from_signal (replicate 1024 0) = Inr f \<and> length f = 8 \<and> f ! 6 = 0"
proof -
  have "take 64 (replicate 1024 (0::real)) = replicate 64 0" by simp
  then have "\<forall>m\<in>set (take 32 (rfft_mag (take 64 (replicate 1024 0)))). m = 0"
    using rfft_mag_zeros[of _ 64] by (auto dest: in_set_takeD)
  moreover have "replicate 1024 (0::real) \<noteq> []" by simp
  ultimately show ?thesis
    using extract_features_zero_spectrum[of "replicate 1024 0"] by blast
qed

subsection \<open>Synthetic data\<close>

lemma set_data_mk2: "v \<in> set (data (mk2 r c f)) \<Longrightarrow> \<exists>i<r. \<exists>j<c. v = f i j"
  by (fastforce simp: mk2_def)

lemma draw_features_ok:
  assumes R: "rng_ok R" and rs: "\<forall>(lo, hi)\<in>set rs. 0 \<le> lo \<and> lo \<le> hi \<and> hi \<le> 255"
  shows "length (fst (draw_features R g n rs)) = length rs
     \<and> (\<forall>col\<in>set (fst (draw_features R g n rs)). length col = n \<and> (\<forall>v\<in>set col. 0 \<le> v \<and> v \<le> 255))"
  using rs
proof (induction rs arbitrary: g)
  case Nil
  then show ?case by simp
next
  case (Cons r rs)
  obtain lo hi where r: "r = (lo, hi)" by (cases r)
  obtain col g1 where u: "uniform R g lo hi n = (col, g1)" by (cases "uniform R g lo hi n")
  obtain cols g2 where d: "draw_features R g1 n rs = (cols, g2)"
    by (cases "draw_features R g1 n rs")
  have b: "0 \<le> lo" "lo \<le> hi" "hi \<le> 255" using Cons.prems r by simp_all
  have "length (fst (uniform R g lo hi n)) = n
      \<and> (\<forall>v\<in>set (fst (uniform R g lo hi n)). lo \<le> v \<and> v \<le> hi)"
    using R b(2) unfolding rng_ok_def by blast
  then have col: "length col = n" "\<forall>v\<in>set col. 0 \<le> v \<and> v \<le> 255"
    using u b by auto
  have IH: "length cols = length rs
     \<and> (\<forall>col\<in>set cols. length col = n \<and> (\<forall>v\<in>set col. 0 \<le> v \<and> v \<le> 255))"
    using Cons.IH[of g1] Cons.prems d by simp
  show ?case using col IH by (simp add: r u d)
qed

lemma column_stack_ok:
  assumes "length cols = 8" "\<forall>col\<in>set cols. length col = n \<and> (\<forall>v\<in>set col. 0 \<le> v \<and> v \<le> (255::real))"
  shows "shape (column_stack n cols) = [n, 8] \<and> length (data (column_stack n cols)) = n * 8
     \<and> (\<forall>v\<in>set (data (column_stack n cols)). 0 \<le> v \<and> v \<le> 255)"
proof -
  have "0 \<le> v \<and> v \<le> 255" if "v \<in> set (data (column_stack n cols))" for v
  proof -
    from that have "v \<in> set (data (mk2 n 8 (\<lambda>i j. cols ! j ! i)))"
      using assms(1) by (simp add: column_stack_def)
    from set_data_mk2[OF this] obtain i j where ij: "i < n" "j < 8" "v = cols ! j ! i"
      by blast
    have "cols ! j \<in> set cols" using ij assms(1) by simp
    then have "length (cols ! j) = n" "\<forall>v\<in>set (cols ! j). 0 \<le> v \<and> v \<le> 255" using assms(2) by auto
    then show ?thesis using ij by simp
  qed
  then show ?thesis using assms(1) by (simp add: column_stack_def)
qed

lemma draw_classes_ok:
  assumes R: "rng_ok R"
    and cr: "\<forall>rs\<in>set rss. length rs = 8 \<and> (\<forall>(lo, hi)\<in>set rs. 0 \<le> lo \<and> lo \<le> hi \<and> hi \<le> 255)"
  shows "length (fst (draw_classes R g n rss)) = length rss
     \<and> (\<forall>b\<in>set (fst (draw_classes R g n rss)). block_ok n b)"
  using cr
proof (induction rss arbitrary: g)
  case Nil
  then show ?case by simp
next
  case (Cons rs rss)
  obtain cols g1 where f: "draw_features R g n rs = (cols, g1)" by (cases "draw_features R g n rs")
  obtain blocks g2 where d: "draw_classes R g1 n rss = (blocks, g2)"
    by (cases "draw_classes R g1 n rss")
  have rs: "length rs = 8" "\<forall>(lo, hi)\<in>set rs. 0 \<le> lo \<and> lo \<le> hi \<and> hi \<le> 255"
    using Cons.prems by simp_all
  have "length cols = 8 \<and> (\<forall>col\<in>set cols. length col = n \<and> (\<forall>v\<in>set col. 0 \<le> v \<and> v \<le> 255))"
    using draw_features_ok[OF R rs(2), of g n] f rs(1) by simp
  then have "block_ok n (column_stack n cols)"
    unfolding block_ok_def using column_stack_ok[of cols n] by blast
  moreover have "length blocks = length rss \<and> (\<forall>b\<in>set blocks. block_ok n b)"
    using Cons.IH[of g1] Cons.prems d by simp
  ultimately show ?case by (simp add: f d)
qed

lemma class_ranges_ok:
  "\<forall>rs\<in>set class_ranges. length rs = 8 \<and> (\<forall>(lo, hi)\<in>set rs. 0 \<le> lo \<and> lo \<le> hi \<and> hi \<le> 255)"
  by (simp add: class_ranges_def)

lemma vstack8_ok:
  assumes "\<forall>b\<in>set blocks. block_ok n b"
  shows "shape (vstack8 blocks) = [length blocks * n, 8]
     \<and> length (data (vstack8 blocks)) = length blocks * n * 8
     \<and> (\<forall>v\<in>set (data (vstack8 blocks)). 0 \<le> v \<and> v \<le> 255)"
  using assms
  by (induction blocks) (auto simp: vstack8_def block_ok_def algebra_simps)

lemma take_rows_values:
  assumes sh: "shape X = [r, c]" and len: "length (data X) = r * c"
    and idx: "\<forall>i\<in>set idx. i < r"
  shows "set (data (take_rows X idx)) \<subseteq> set (data X)"
proof
  fix v assume "v \<in> set (data (take_rows X idx))"
  then have "v \<in> set (data (mk2 (length idx) c (\<lambda>i j. at2 X (idx ! i) j)))"
    using sh by (simp add: take_rows_def ncols_def)
  from set_data_mk2[OF this] obtain i j where ij: "i < length idx" "j < c" "v = at2 X (idx ! i) j"
    by blast
  have "idx ! i < r" using idx ij(1) by simp
  then have "idx ! i * c + j < r * c" using ij(2) by (rule flat_index_lt)
  then show "v \<in> set (data X)" using ij(3) sh len by (simp add: at2_def ncols_def)
qed

lemma perm_of_upt:
  assumes "distinct idx" "set idx = {0..<n}"
  shows "mset idx = mset [0..<n]"
proof -
  have "mset idx = mset_set (set idx)" using assms(1) by (simp add: mset_set_set)
  also have "\<dots> = mset_set (set [0..<n])" using assms(2) by simp
  also have "\<dots> = mset [0..<n]" by (simp add: mset_set_set)
  finally show ?thesis .
qed

lemma take_elems_perm:
  assumes "distinct idx" "set idx = {0..<length y}"
  shows "mset (take_elems y idx) = mset y"
proof -
  have "mset (take_elems y idx) = image_mset ((!) y) (mset idx)" by (simp add: take_elems_def)
  also have "\<dots> = image_mset ((!) y) (mset [0..<length y])" using perm_of_upt[OF assms] by simp
  also have "\<dots> = mset (map ((!) y) [0..<length y])" by simp
  also have "\<dots> = mset y" by (simp add: map_nth)
  finally show ?thesis .
qed

lemma count_take_elems:
  assumes "distinct idx" "set idx = {0..<length y}"
  shows "length (filter P (take_elems y idx)) = length (filter P y)"
proof -
  have "length (filter P (take_elems y idx)) = size (filter_mset P (mset (take_elems y idx)))"
    by (metis mset_filter size_mset)
  also have "\<dots> = size (filter_mset P (mset y))" using take_elems_perm[OF assms] by simp
  also have "\<dots> = length (filter P y)" by (metis mset_filter size_mset)
  finally show ?thesis .
qed

lemma class_labels_count:
  "c \<in> {0, 1, 2, 3} \<Longrightarrow> length (filter (\<lambda>l. l = c) (class_labels n)) = n"
  by (auto simp: class_labels_def)

lemma length_class_labels: "length (class_labels n) = 4 * n"
  by (simp add: class_labels_def)

text \<open>
  Claim C8. For a count \<open>n \<ge> 0\<close> and a seed the generator accepts,
  \<open>generate_synthetic_data\<close> returns \<open>4 n\<close> samples of eight features with exactly \<open>n\<close>
  samples of each class 0 to 3 and every feature in \<open>[0, 255]\<close>; the result is the same at
  every call with the same arguments, whatever the state of the process-wide generator,
  which the call leaves as it was.
\<close>

theorem generate_synthetic_data_balanced:
  assumes R: "rng_ok R" and seed: "random_state R seed = Inr rng" and n: "0 \<le> n"
  shows "\<exists>X y. generate_synthetic_data R n seed gs = (Inr (X, y), gs)
     \<and> shape X = [4 * nat n, 8] \<and> wf_ndarray X \<and> length y = 4 * nat n
     \<and> (\<forall>c\<in>{0, 1, 2, 3}. length (filter (\<lambda>l. l = c) y) = nat n)
     \<and> (\<forall>v\<in>set (data X). 0 \<le> v \<and> v \<le> 255)
     \<and> (\<forall>gs'. fst (generate_synthetic_data R n seed gs') = Inr (X, y))"
proof -
  let ?m = "nat n"
  obtain blocks rng1 where dc: "draw_classes R rng ?m class_ranges = (blocks, rng1)"
    by (cases "draw_classes R rng ?m class_ranges")
  obtain idx rng2 where pm: "permutation R rng1 (4 * ?m) = (idx, rng2)"
    by (cases "permutation R rng1 (4 * ?m)")
  let ?V = "vstack8 blocks"
  let ?X = "take_rows ?V idx"
  let ?y = "take_elems (class_labels ?m) idx"
  have run: "generate_synthetic_data R n seed gs' = (Inr (?X, ?y), gs')" for gs'
    using n by (simp add: generate_synthetic_data_def seed bind_exn_def Let_def dc
        length_class_labels pm)
  have bl: "length blocks = 4" "\<forall>b\<in>set blocks. block_ok ?m b"
    using draw_classes_ok[OF R class_ranges_ok, of rng ?m] dc by (simp_all add: class_ranges_def)
  have X0: "shape ?V = [4 * ?m, 8]" "length (data ?V) = 4 * ?m * 8"
    "\<forall>v\<in>set (data ?V). 0 \<le> v \<and> v \<le> 255"
    using vstack8_ok[OF bl(2)] bl(1) by simp_all
  have ix: "length idx = 4 * ?m" "distinct idx" "set idx = {0..<4 * ?m}"
    using R pm unfolding rng_ok_def by (metis fst_conv)+
  have shX: "shape ?X = [4 * ?m, 8]" using X0(1) ix(1) by (simp add: take_rows_def ncols_def)
  have wfX: "wf_ndarray ?X" by (simp add: take_rows_def)
  have leny: "length ?y = 4 * ?m" using ix(1) by (simp add: take_elems_def)
  have cnt: "\<forall>c\<in>{0, 1, 2, 3}. length (filter (\<lambda>l. l = c) ?y) = ?m"
  proof
    fix c :: int assume c: "c \<in> {0, 1, 2, 3}"
    have "length (filter (\<lambda>l. l = c) ?y) = length (filter (\<lambda>l. l = c) (class_labels ?m))"
      by (rule count_take_elems) (simp_all add: ix length_class_labels)
    then show "length (filter (\<lambda>l. l = c) ?y) = ?m" using class_labels_count[OF c] by simp
  qed
  have "set (data ?X) \<subseteq> set (data ?V)"
    by (rule take_rows_values[OF X0(1) X0(2)]) (simp add: ix)
  then have vals: "\<forall>v\<in>set (data ?X). 0 \<le> v \<and> v \<le> 255" using X0(3) by blast
  have det: "\<forall>gs'. fst (generate_synthetic_data R n seed gs') = Inr (?X, ?y)"
    by (simp add: run)
  show ?thesis
    by (intro exI[of _ ?X] exI[of _ ?y] conjI run shX wfX leny cnt vals det)
qed

lemma rng_ok_sample_random: "rng_ok sample_random"
  by (simp add: rng_ok_def sample_random_def)

theorem generate_synthetic_data_balanced_witness:
  "\<exists>X y. generate_synthetic_data sample_random 2 42 0 = (Inr (X, y), 0)
     \<and> shape X = [8, 8] \<and> length y = 8
     \<and> (\<forall>c\<in>{0, 1, 2, 3}. length (filter (\<lambda>l. l = c) y) = 2)
     \<and> (\<forall>v\<in>set (data X). 0 \<le> v \<and> v \<le> 255)"
proof -
  have s: "random_state sample_random 42 = Inr 42" by (simp add: sample_random_def)
  have n: "(0::int) \<le> 2" by simp
  from generate_synthetic_data_balanced[OF rng_ok_sample_random s n, of 0]
  show ?thesis by auto
qed

subsection \<open>Quantisation\<close>

lemma f64_of_real_overflow: "f64_of_real (127 / (1 / 2 ^ 1020)) = PInf"
proof -
  have "(2::real) ^ 1024 = 16 * 2 ^ 1020" by simp
  moreover have "(0::real) < 2 ^ 970" by simp
  moreover have "(0::real) < 2 ^ 1020" by simp
  ultimately have "(2::real) ^ 1024 - 2 ^ 970 \<le> 127 * 2 ^ 1020" by linarith
  moreover have "(0::real) < 127 * 2 ^ 1020" by simp
  ultimately show ?thesis by (simp add: f64_of_real_def)
qed

lemma tiny_weight_pos: "(0::real) < 1 / 2 ^ 1020"
  by simp

lemma f64_mul_pos_inf: "0 < w \<Longrightarrow> f64_round (f64_mul (Fin w) PInf) = PInf"
  by simp

lemma quantize_elem_inf: "0 < w \<Longrightarrow> quantize_elem PInf (Fin w) = - 128"
proof -
  assume w: "0 < w"
  have "sint (word_of_int (- (2 ^ 63)) :: int64) = - (2 ^ 63)" by (simp add: int_word_sint)
  then show ?thesis using w by (simp add: quantize_elem_def np_clip_def)
qed

lemma quantize_int8_single_overflow:
  assumes w: "0 < w" and ov: "f64_of_real (127 / w) = PInf"
  shows "quantize_int8 \<lparr>shape = [1], data = [Fin w]\<rparr> = Inr (\<lparr>shape = [1], data = [- 128]\<rparr>, PInf)"
  using w by (simp add: quantize_int8_def np_max_def bind_exn_def ov quantize_elem_inf)

text \<open>
  Claim C4. On the one-element tensor holding \<open>2\<^sup>-\<^sup>1\<^sup>0\<^sup>2\<^sup>0\<close> the quotient \<open>127.0 / w_max\<close>
  overflows: the scale returned is \<open>+inf\<close>, so \<open>1 / scale\<close> is zero and no round-trip bound
  can hold for the non-zero weight; the product of the weight and the scale is \<open>+inf\<close>,
  whose rounding clipped to \<open>[-128, 127]\<close> would be 127, and the element returned is \<open>-128\<close>.
\<close>

theorem quantize_int8_scale_overflow:
  "quantize_int8 \<lparr>shape = [1], data = [Fin (1 / 2 ^ 1020)]\<rparr>
     = Inr (\<lparr>shape = [1], data = [- 128]\<rparr>, PInf)
   \<and> f64_round (f64_mul (Fin (1 / 2 ^ 1020)) PInf) = PInf"
proof (intro conjI)
  show "quantize_int8 \<lparr>shape = [1], data = [Fin (1 / 2 ^ 1020)]\<rparr>
     = Inr (\<lparr>shape = [1], data = [- 128]\<rparr>, PInf)"
    by (rule quantize_int8_single_overflow[OF tiny_weight_pos f64_of_real_overflow])
  show "f64_round (f64_mul (Fin (1 / 2 ^ 1020)) PInf) = PInf"
    by (rule f64_mul_pos_inf[OF tiny_weight_pos])
qed

text \<open>
  Claim C10. The quantised output of the one-element tensor holding \<open>2\<^sup>-\<^sup>1\<^sup>0\<^sup>2\<^sup>0\<close> is \<open>-128\<close>.
\<close>

theorem quantize_int8_yields_minus_128:
  "(case quantize_int8 \<lparr>shape = [1], data = [Fin (1 / 2 ^ 1020)]\<rparr> of
      Inl e \<Rightarrow> False
    | Inr (q, scale) \<Rightarrow> data q = [- 128] \<and> sint (data q ! 0) = - 128)"
  unfolding quantize_int8_single_overflow[OF tiny_weight_pos f64_of_real_overflow]
  by simp

subsection \<open>Real data\<close>

lemma rfft_mag_replicate_zero: "rfft_mag (replicate n 0) = replicate (n div 2 + 1) 0"
proof -
  have "\<forall>m\<in>set (rfft_mag (replicate n 0)). m = 0" using rfft_mag_zeros by blast
  then have "rfft_mag (replicate n 0) = replicate (length (rfft_mag (replicate n 0))) 0"
    by (simp add: replicate_length_same)
  then show ?thesis by (simp add: rfft_mag_length)
qed

lemma argmax_from_replicate: "argmax_from b v i (replicate n v) = b"
  by (induction n arbitrary: i) simp_all

lemma extract_features_zero_window:
  "extract_features_from_signal (replicate 1024 0) = Inr [0, 0, 0, 0, 0, 0, 0, 0]"
proof -
  have t: "take 64 (replicate 1024 (0::real)) = replicate 64 0" by simp
  have mag: "take 32 (rfft_mag (replicate 64 0)) = replicate 32 0"
    by (simp add: rfft_mag_replicate_zero)
  have "replicate 32 (0::real) = 0 # replicate 31 0" by (simp add: numeral_eq_Suc)
  then have am: "np_argmax (replicate 32 0) = Inr 0"
    by (simp add: np_argmax_def argmax_from_replicate)
  have ne: "replicate 64 (0::real) \<noteq> []" by simp
  show ?thesis
    unfolding extract_features_from_signal_def Let_def t mag am
    by (simp add: ne bind_exn_def py_slice_def sum_list_replicate)
qed

lemma segments_1536: "segments (replicate 1536 (0::real)) = [replicate 1024 0]"
  by (simp add: segments_def n_windows_def window_size_def hop_def)

lemma endswith_ex: "endswith ''X097_DE_time'' ''_DE_time''" "endswith ''X118_DE_time'' ''_DE_time''"
  by code_simp+

lemma find_de_key_ex: "find (\<lambda>(k, v). endswith k ''_DE_time'') [(''X097_DE_time'', s)] = Some (''X097_DE_time'', s)"
  "find (\<lambda>(k, v). endswith k ''_DE_time'') [(''X118_DE_time'', s)] = Some (''X118_DE_time'', s)"
  by (simp_all only: find.simps prod.case endswith_ex if_True)

lemma paths_ex: "path_join ''data'' ''Normal.mat'' = ''data/Normal.mat''"
  "path_join ''data'' ''B007.mat'' = ''data/B007.mat''"
  "path_join ''data'' ''IR007.mat'' = ''data/IR007.mat''"
  "path_join ''data'' ''OR007.mat'' = ''data/OR007.mat''"
  by (simp_all add: path_join_def)

lemma files_ex: "files sample_env ''data/Normal.mat'' = Some [(''X097_DE_time'', replicate 1536 0)]"
  "files sample_env ''data/B007.mat'' = Some [(''X118_DE_time'', replicate 1536 0)]"
  "files sample_env ''data/IR007.mat'' = None"
  "files sample_env ''data/OR007.mat'' = None"
  unfolding sample_env_def env.simps by simp_all

lemma collect_absent:
  "files e (path_join d f) = None
   \<Longrightarrow> collect_windows e d ((f, l) # rest) = collect_windows e d rest"
  by simp

lemma collect_present:
  "files e (path_join d f) = Some mat
   \<Longrightarrow> find (\<lambda>(k, v). endswith k ''_DE_time'') mat = Some (k, sig)
   \<Longrightarrow> map_exn extract_features_from_signal (segments sig) = Inr fs
   \<Longrightarrow> collect_windows e d ((f, l) # rest)
       = bind_exn (collect_windows e d rest) (\<lambda>more. Inr (map (\<lambda>f. (f, l)) fs @ more))"
  by (simp add: bind_exn_def)

lemma features_1536:
  "map_exn extract_features_from_signal (segments (replicate 1536 0)) = Inr [[0, 0, 0, 0, 0, 0, 0, 0]]"
  unfolding segments_1536
  by (simp only: map_exn.simps extract_features_zero_window bind_exn_def sum.case)

lemma collect_sample_env:
  "collect_windows sample_env ''data'' file_class_map
   = Inr [([0, 0, 0, 0, 0, 0, 0, 0], 0), ([0, 0, 0, 0, 0, 0, 0, 0], 1)]"
proof -
  have a4: "files sample_env (path_join ''data'' ''OR007.mat'') = None"
    and a3: "files sample_env (path_join ''data'' ''IR007.mat'') = None"
    and a2: "files sample_env (path_join ''data'' ''B007.mat'') = Some [(''X118_DE_time'', replicate 1536 0)]"
    and a1: "files sample_env (path_join ''data'' ''Normal.mat'') = Some [(''X097_DE_time'', replicate 1536 0)]"
    by (simp_all only: paths_ex files_ex)
  have c4: "collect_windows sample_env ''data'' [(''OR007.mat'', 3)] = Inr []"
    unfolding collect_absent[OF a4] by simp
  have c3: "collect_windows sample_env ''data'' [(''IR007.mat'', 2), (''OR007.mat'', 3)] = Inr []"
    unfolding collect_absent[OF a3] by (rule c4)
  have c2: "collect_windows sample_env ''data'' [(''B007.mat'', 1), (''IR007.mat'', 2), (''OR007.mat'', 3)]
      = Inr [([0, 0, 0, 0, 0, 0, 0, 0], 1)]"
    unfolding collect_present[OF a2 find_de_key_ex(2) features_1536] c3
    by (simp add: bind_exn_def)
  have c1: "collect_windows sample_env ''data''
        [(''Normal.mat'', 0), (''B007.mat'', 1), (''IR007.mat'', 2), (''OR007.mat'', 3)]
      = Inr [([0, 0, 0, 0, 0, 0, 0, 0], 0), ([0, 0, 0, 0, 0, 0, 0, 0], 1)]"
    unfolding collect_present[OF a1 find_de_key_ex(1) features_1536] c2
    by (simp add: bind_exn_def)
  show ?thesis
    by (simp only: file_class_map_def c1)
qed

lemma perm_ex: "permutation sample_random 0 (Suc (Suc 0)) = ([0, 1], 1)"
  "permutation sample_random (Suc 0) (Suc (Suc 0)) = ([1, 0], 2)"
  by (simp_all add: sample_random_def)

lemma take_elems_ex: "take_elems [0, 1 :: int] [0, 1] = [0, 1]" "take_elems [0, 1 :: int] [1, 0] = [1, 0]"
  by (simp_all add: take_elems_def)

lemma load_sample_env:
  "load_cwru_data sample_random sample_env ''data'' 0
     = (Inr (take_rows (normalize_features [[0, 0, 0, 0, 0, 0, 0, 0], [0, 0, 0, 0, 0, 0, 0, 0]]) [0, 1],
             take_elems [0, 1] [0, 1]), 1)"
  "load_cwru_data sample_random sample_env ''data'' (Suc 0)
     = (Inr (take_rows (normalize_features [[0, 0, 0, 0, 0, 0, 0, 0], [0, 0, 0, 0, 0, 0, 0, 0]]) [1, 0],
             take_elems [0, 1] [1, 0]), 2)"
proof -
  have sc: "scipy_installed sample_env" by (simp only: sample_env_def env.simps)
  have len2: "\<And>(a::int) b. length [a, b] = Suc (Suc 0)" by simp
  show "load_cwru_data sample_random sample_env ''data'' 0
     = (Inr (take_rows (normalize_features [[0, 0, 0, 0, 0, 0, 0, 0], [0, 0, 0, 0, 0, 0, 0, 0]]) [0, 1],
             take_elems [0, 1] [0, 1]), 1)"
    unfolding load_cwru_data_def collect_sample_env
    by (simp only: sc not_True_eq_False if_False sum.case list.simps(3) Let_def list.map
        fst_conv snd_conv len2 perm_ex prod.case)
  show "load_cwru_data sample_random sample_env ''data'' (Suc 0)
     = (Inr (take_rows (normalize_features [[0, 0, 0, 0, 0, 0, 0, 0], [0, 0, 0, 0, 0, 0, 0, 0]]) [1, 0],
             take_elems [0, 1] [1, 0]), 2)"
    unfolding load_cwru_data_def collect_sample_env
    by (simp only: sc not_True_eq_False if_False sum.case list.simps(3) Let_def list.map
        fst_conv snd_conv len2 perm_ex prod.case)
qed

text \<open>
  Claim C2. \<open>load_cwru_data\<close> shuffles with \<open>np.random.permutation\<close>, the process-wide
  generator: on one and the same directory (two files of one window each) the order of the
  samples it returns depends on the state of that generator. A first call in state 0
  returns the labels \<open>[0, 1]\<close> and leaves the generator in state 1; a call in state 1, such as
  a second call in the same process, returns \<open>[1, 0]\<close>.
\<close>

theorem load_cwru_data_depends_on_global_generator:
  "(case load_cwru_data sample_random sample_env ''data'' 0 of
      (Inr (X, y), gs) \<Rightarrow> y = [0, 1] \<and> gs = Suc 0 | (Inl a, gs) \<Rightarrow> False)
   \<and> (case load_cwru_data sample_random sample_env ''data'' (Suc 0) of
      (Inr (X, y), gs) \<Rightarrow> y = [1, 0] | (Inl a, gs) \<Rightarrow> False)"
  unfolding load_sample_env take_elems_ex
  by (simp only: prod.case sum.case simp_thms One_nat_def)

end
